theory Spec2Isabelle
  imports Main "HOL-Library.Multiset"
begin

section \<open>Python string primitives\<close>

text \<open>
  The header of a request reaches the application decoded as Latin-1, so a \<open>char\<close> of
  this theory is one code point below 256. \<open>str.split()\<close>, \<open>str.strip()\<close> and
  \<open>str.lower()\<close> are the Python built-ins on such strings: the white space of Python
  below 256 is TAB, LF, VT, FF, CR, FS, GS, RS, US, SPACE, NEL (0x85) and NBSP (0xA0).
\<close>

definition py_isspace :: "char \<Rightarrow> bool" where
  "py_isspace c =
     (c = CHR 0x09 \<or> c = CHR 0x0A \<or> c = CHR 0x0B \<or> c = CHR 0x0C \<or> c = CHR 0x0D \<or>
      c = CHR 0x1C \<or> c = CHR 0x1D \<or> c = CHR 0x1E \<or> c = CHR 0x1F \<or> c = CHR 0x20 \<or>
      c = CHR 0x85 \<or> c = CHR 0xA0)"

text \<open>\<open>split_from w s\<close>: the words of \<open>s\<close>, where \<open>w\<close> is the word read so far.\<close>

fun split_from :: "string \<Rightarrow> string \<Rightarrow> string list" where
  "split_from w [] = (if w = [] then [] else [w])"
| "split_from w (c # cs) =
     (if py_isspace c then (if w = [] then split_from [] cs else w # split_from [] cs)
      else split_from (w @ [c]) cs)"

definition py_split :: "string \<Rightarrow> string list" where
  "py_split s = split_from [] s"

definition py_strip :: "string \<Rightarrow> string" where
  "py_strip s = rev (dropWhile py_isspace (rev (dropWhile py_isspace s)))"

definition lower_char :: "char \<Rightarrow> char" where
  "lower_char c =
     (let n = (of_char c :: nat)
      in if (65 \<le> n \<and> n \<le> 90) \<or> (192 \<le> n \<and> n \<le> 222 \<and> n \<noteq> 215)
         then char_of (n + 32) else c)"

definition py_lower :: "string \<Rightarrow> string" where
  "py_lower s = map lower_char s"

text \<open>\<open>str(n)\<close> of an integer, as an f-string renders it.\<close>

definition digit_char :: "nat \<Rightarrow> char" where
  "digit_char d =
     (if d = 0 then CHR ''0'' else if d = 1 then CHR ''1'' else if d = 2 then CHR ''2''
      else if d = 3 then CHR ''3'' else if d = 4 then CHR ''4'' else if d = 5 then CHR ''5''
      else if d = 6 then CHR ''6'' else if d = 7 then CHR ''7'' else if d = 8 then CHR ''8''
      else CHR ''9'')"

function str_nat :: "nat \<Rightarrow> string" where
  "str_nat n = (if n < 10 then [digit_char n] else str_nat (n div 10) @ [digit_char (n mod 10)])"
  by pat_completeness auto
termination
  by (relation "measure (\<lambda>n. n)") auto

declare str_nat.simps [simp del]

definition str_int :: "int \<Rightarrow> string" where
  "str_int i = (if i < 0 then CHR ''-'' # str_nat (nat (- i)) else str_nat (nat i))"

section \<open>Data model (models.py, schemas.py)\<close>

text \<open>
  Timestamps are the store's clock readings (\<open>func.now()\<close>), taken as natural numbers.
  The three mapped classes of models.py are records; a column that may hold NULL (or a
  Python attribute that may hold \<open>None\<close> before the flush) is an \<open>option\<close>.
  Field names: \<open>u_id\<close>, \<open>t_id\<close> and \<open>s_id\<close> are the \<open>id\<close> columns of User, Task and
  AISuggestion, \<open>s_created_at\<close> is \<open>AISuggestion.created_at\<close>.
\<close>

type_synonym datetime = nat

record User =
  u_id :: int
  username :: string
  email :: string

record Task =
  t_id :: int
  title :: "string option"
  description :: "string option"
  status :: "string option"
  created_at :: datetime
  updated_at :: "datetime option"
  assignee_id :: "int option"

record AISuggestion =
  s_id :: int
  suggestion_text :: string
  s_created_at :: datetime
  task_id :: int

text \<open>
  A field of a request model is either absent from the request body or given (possibly
  as JSON null): pydantic records which fields were set, and \<open>attr\<close> reads the
  attribute, which is the declared default when the field was not set. The fields of
  TaskCreate carry the prefix \<open>c_\<close>, those of TaskUpdate the prefix \<open>x_\<close>, and
  \<open>n_suggestion_text\<close> is the field of AISuggestionCreate.
\<close>

datatype 'a field = Unset | Given 'a

definition attr :: "'a \<Rightarrow> 'a field \<Rightarrow> 'a" where
  "attr dflt f = (case f of Unset \<Rightarrow> dflt | Given v \<Rightarrow> v)"

text \<open>
  schemas.TaskCreate: \<open>title: str\<close> is required; \<open>description: Optional[str] = None\<close>,
  \<open>status: Optional[str] = "pending"\<close>, \<open>assignee_id: Optional[int] = None\<close>.
\<close>

record TaskCreate =
  c_title :: string
  c_description :: "string option field"
  c_status :: "string option field"
  c_assignee_id :: "int option field"

text \<open>schemas.TaskUpdate: every field is \<open>Optional\<close> with default \<open>None\<close>.\<close>

record TaskUpdate =
  x_title :: "string option field"
  x_description :: "string option field"
  x_status :: "string option field"
  x_assignee_id :: "int option field"

text \<open>schemas.AISuggestionCreate.\<close>

record AISuggestionCreate =
  n_suggestion_text :: string

section \<open>The store\<close>

text \<open>
  The relational store behind the session: the three tables, and the sequences that
  generate the primary keys of tasks and suggestions. Every function that writes
  returns the store as it is after the call, beside its result or the exception it
  raised. Two things make the store refuse a statement:
  \<^item> the driver (psycopg2, the driver of the configured \<open>postgresql://\<close> URL) raises
    ValueError for a string parameter that holds the character U+0000, before the
    statement is sent;
  \<^item> a statement that violates a constraint declared in models.py (\<open>nullable=False\<close>,
    \<open>ForeignKey\<close>) raises IntegrityError.

  In both cases the request-scoped session is closed without a commit, so the tables
  are the ones before the call; but a sequence is not part of the transaction, and the
  value that a refused INSERT has drawn from it is not given back.
\<close>

record db =
  users :: "User list"
  tasks :: "Task list"
  suggestions :: "AISuggestion list"
  task_id_seq :: int
  suggestion_id_seq :: int

datatype error = HTTPException nat string | IntegrityError | ValueError

text \<open>The status code a client sees: an unhandled exception is a 500.\<close>

fun status_code :: "error \<Rightarrow> nat" where
  "status_code (HTTPException c d) = c"
| "status_code IntegrityError = 500"
| "status_code ValueError = 500"

text \<open>A string parameter the driver accepts: \<open>None\<close>, or a string without U+0000.\<close>

definition nul_free :: "string option \<Rightarrow> bool" where
  "nul_free x = (case x of None \<Rightarrow> True | Some s \<Rightarrow> CHR 0x00 \<notin> set s)"

section \<open>crud.py\<close>

definition get_user :: "db \<Rightarrow> int \<Rightarrow> User option" where
  "get_user d user_id = find (\<lambda>u. u_id u = user_id) (users d)"

definition get_task :: "db \<Rightarrow> int \<Rightarrow> Task option" where
  "get_task d tid = find (\<lambda>t. t_id t = tid) (tasks d)"

text \<open>The constraints of table \<open>tasks\<close>: \<open>title\<close> is NOT NULL, \<open>assignee_id\<close> refers to \<open>users.id\<close>.\<close>

definition fk_users :: "db \<Rightarrow> int option \<Rightarrow> bool" where
  "fk_users d a = (case a of None \<Rightarrow> True | Some u \<Rightarrow> get_user d u \<noteq> None)"

definition task_constraints :: "db \<Rightarrow> Task \<Rightarrow> bool" where
  "task_constraints d t = (title t \<noteq> None \<and> fk_users d (assignee_id t))"

text \<open>
  The string parameters of an INSERT into \<open>tasks\<close> are its three string columns; those
  of an UPDATE are the string columns whose value has changed.
\<close>

definition insert_parameters_ok :: "Task \<Rightarrow> bool" where
  "insert_parameters_ok t = (nul_free (title t) \<and> nul_free (description t) \<and> nul_free (status t))"

definition update_parameters_ok :: "Task \<Rightarrow> Task \<Rightarrow> bool" where
  "update_parameters_ok old obj =
     ((title obj = title old \<or> nul_free (title obj)) \<and>
      (description obj = description old \<or> nul_free (description obj)) \<and>
      (status obj = status old \<or> nul_free (status obj)))"

text \<open>\<open>x or dflt\<close> on an optional string: \<open>None\<close> and the empty string are falsy.\<close>

definition py_or :: "string option \<Rightarrow> string \<Rightarrow> string" where
  "py_or x dflt = (case x of None \<Rightarrow> dflt | Some s \<Rightarrow> if s = [] then dflt else s)"

text \<open>
  \<open>create_task\<close>: the INSERT assigns the next value of the id sequence and the
  server default \<open>now()\<close> of \<open>created_at\<close>; \<open>updated_at\<close> has no default and stays
  NULL. \<open>db.refresh\<close> reads the row back, so the returned object is the stored row.
  An INSERT that the foreign key refuses has drawn its id from the sequence.
\<close>

definition create_task :: "datetime \<Rightarrow> db \<Rightarrow> TaskCreate \<Rightarrow> db \<times> (error + Task)" where
  "create_task now d task =
     (let db_task = \<lparr> t_id = task_id_seq d,
                      title = Some (c_title task),
                      description = attr None (c_description task),
                      status = Some (py_or (attr (Some ''pending'') (c_status task)) ''pending''),
                      created_at = now,
                      updated_at = None,
                      assignee_id = attr None (c_assignee_id task) \<rparr>
      in if \<not> insert_parameters_ok db_task then (d, Inl ValueError)
         else if \<not> task_constraints d db_task
         then (d\<lparr> task_id_seq := task_id_seq d + 1 \<rparr>, Inl IntegrityError)
         else (d\<lparr> tasks := tasks d @ [db_task], task_id_seq := task_id_seq d + 1 \<rparr>, Inr db_task))"

text \<open>
  \<open>get_tasks\<close>: the query has an OFFSET and a LIMIT and no ORDER BY clause (the source
  comment leaves sorting to be added), so the rows come in the order in which the storage
  engine scans the table. \<open>scan\<close> is that order, applied to the rows of the table (kept
  here in insertion order): the identity for an engine that yields the rows as they were
  inserted; for an engine that writes the new version of an updated row behind the other
  rows (a PostgreSQL heap does, unless free space lies before them), the scan of a table
  whose first row was updated is \<open>rotate 1\<close>. The window arguments are the
  non-negative ones.
\<close>

definition get_tasks :: "(Task list \<Rightarrow> Task list) \<Rightarrow> db \<Rightarrow> nat \<Rightarrow> nat \<Rightarrow> Task list" where
  "get_tasks scan d skip limit = take limit (drop skip (scan (tasks d)))"

text \<open>
  \<open>update_task\<close>: \<open>model_dump(exclude_unset=True)\<close> is the list of the fields that were
  set, in the order of their declaration, and the loop assigns each to the loaded object.
\<close>

datatype assignment =
    Set_title "string option"
  | Set_description "string option"
  | Set_status "string option"
  | Set_assignee_id "int option"

definition dump_field :: "('a \<Rightarrow> assignment) \<Rightarrow> 'a field \<Rightarrow> assignment list" where
  "dump_field k f = (case f of Unset \<Rightarrow> [] | Given v \<Rightarrow> [k v])"

definition model_dump_exclude_unset :: "TaskUpdate \<Rightarrow> assignment list" where
  "model_dump_exclude_unset u =
     dump_field Set_title (x_title u) @ dump_field Set_description (x_description u) @
     dump_field Set_status (x_status u) @ dump_field Set_assignee_id (x_assignee_id u)"

fun setattr :: "Task \<Rightarrow> assignment \<Rightarrow> Task" where
  "setattr t (Set_title v) = t\<lparr> title := v \<rparr>"
| "setattr t (Set_description v) = t\<lparr> description := v \<rparr>"
| "setattr t (Set_status v) = t\<lparr> status := v \<rparr>"
| "setattr t (Set_assignee_id v) = t\<lparr> assignee_id := v \<rparr>"

text \<open>
  \<open>commit_update old obj\<close>: the flush of a loaded object. The unit of work compares each
  attribute with the value that was loaded and emits no UPDATE when none differs; the
  \<open>onupdate=func.now()\<close> of \<open>updated_at\<close> is part of the UPDATE statement, so it is
  applied exactly when one is emitted. The UPDATE is refused by the driver or by the
  constraints of the table as an INSERT is; it draws from no sequence. The result is the
  store after the call and the row as \<open>db.refresh\<close> reads it back.
\<close>

definition commit_update :: "datetime \<Rightarrow> db \<Rightarrow> Task \<Rightarrow> Task \<Rightarrow> db \<times> (error + Task)" where
  "commit_update now d old obj =
     (if obj = old then (d, Inr old)
      else if \<not> update_parameters_ok old obj then (d, Inl ValueError)
      else if \<not> task_constraints d obj then (d, Inl IntegrityError)
      else (let row = obj\<lparr> updated_at := Some now \<rparr>
            in (d\<lparr> tasks := map (\<lambda>t. if t_id t = t_id old then row else t) (tasks d) \<rparr>, Inr row)))"

definition update_task :: "datetime \<Rightarrow> db \<Rightarrow> int \<Rightarrow> TaskUpdate \<Rightarrow> db \<times> (error + Task option)" where
  "update_task now d tid task_update =
     (case get_task d tid of
        None \<Rightarrow> (d, Inr None)
      | Some db_task \<Rightarrow>
          (let update_data = model_dump_exclude_unset task_update;
               obj = foldl setattr db_task update_data
           in case commit_update now d db_task obj of
                (d', Inl e) \<Rightarrow> (d', Inl e)
              | (d', Inr row) \<Rightarrow> (d', Inr (Some row))))"

text \<open>
  \<open>delete_task\<close>: \<open>Task.suggestions\<close> is declared with \<open>cascade="all, delete-orphan"\<close>,
  so deleting the task deletes the suggestions whose \<open>task_id\<close> is its id.
\<close>

definition delete_task :: "db \<Rightarrow> int \<Rightarrow> db \<times> bool" where
  "delete_task d tid =
     (case get_task d tid of
        None \<Rightarrow> (d, False)
      | Some db_task \<Rightarrow>
          (d\<lparr> tasks := filter (\<lambda>t. t_id t \<noteq> t_id db_task) (tasks d),
              suggestions := filter (\<lambda>s. task_id s \<noteq> t_id db_task) (suggestions d) \<rparr>, True))"

text \<open>
  \<open>create_ai_suggestion\<close>: \<open>suggestion_text\<close> is the string parameter of the INSERT;
  \<open>task_id\<close> is NOT NULL and refers to \<open>tasks.id\<close>.
\<close>

definition create_ai_suggestion ::
    "datetime \<Rightarrow> db \<Rightarrow> AISuggestionCreate \<Rightarrow> int \<Rightarrow> db \<times> (error + AISuggestion)" where
  "create_ai_suggestion now d suggestion tid =
     (let db_suggestion = \<lparr> s_id = suggestion_id_seq d,
                            suggestion_text = n_suggestion_text suggestion,
                            s_created_at = now,
                            task_id = tid \<rparr>
      in if \<not> nul_free (Some (suggestion_text db_suggestion)) then (d, Inl ValueError)
         else if get_task d tid = None
         then (d\<lparr> suggestion_id_seq := suggestion_id_seq d + 1 \<rparr>, Inl IntegrityError)
         else (d\<lparr> suggestions := suggestions d @ [db_suggestion],
                   suggestion_id_seq := suggestion_id_seq d + 1 \<rparr>, Inr db_suggestion))"

section \<open>ai_connector.py\<close>

text \<open>
  What the connector reads from outside the process: the credential file (absent,
  present and unreadable, or its text) and the answer of the provider to a call, given
  the key and the prompt: a response with its list of choices (the content of a choice
  may be \<open>None\<close>), an \<open>OpenAIError\<close>, or any other exception.
\<close>

datatype key_file = File_missing | File_unreadable | File_text string

datatype completion = Response "string option list" | Raises_OpenAIError | Raises_Exception

definition get_openai_api_key :: "key_file \<Rightarrow> string option" where
  "get_openai_api_key f =
     (case f of
        File_missing \<Rightarrow> None
      | File_unreadable \<Rightarrow> None
      | File_text s \<Rightarrow> (let api_key = py_strip s in if api_key = [] then None else Some api_key))"

text \<open>The client is the key it was built with.\<close>

definition get_openai_client :: "key_file \<Rightarrow> string option" where
  "get_openai_client f =
     (case get_openai_api_key f of
        None \<Rightarrow> None
      | Some api_key \<Rightarrow> if api_key \<noteq> [] then Some api_key else None)"

text \<open>
  The f-string renders the title with \<open>str\<close>; the route passes the \<open>title\<close> attribute of
  the loaded row, which no stored row has as \<open>None\<close>.
\<close>

definition py_str :: "string option \<Rightarrow> string" where
  "py_str x = (case x of None \<Rightarrow> ''None'' | Some s \<Rightarrow> s)"

definition build_prompt :: "string option \<Rightarrow> string option \<Rightarrow> string" where
  "build_prompt task_title task_description =
     ''Provide one short, actionable suggestion (less than 20 words) to improve or clarify the following task:'' @ [CHR 0x0A] @
     ''Title: '' @ py_str task_title @ [CHR 0x0A] @
     (case task_description of
        None \<Rightarrow> []
      | Some dsc \<Rightarrow> if dsc = [] then [] else ''Description: '' @ dsc @ [CHR 0x0A]) @
     ''Suggestion:''"

text \<open>
  \<open>response.choices[0].message.content.strip()\<close> stands inside the \<open>try\<close>: an empty list
  of choices (IndexError) and a content of \<open>None\<close> (AttributeError) end in the last handler.
\<close>

definition generate_ai_suggestion ::
    "key_file \<Rightarrow> (string \<Rightarrow> string \<Rightarrow> completion) \<Rightarrow> string option \<Rightarrow> string option \<Rightarrow> string option" where
  "generate_ai_suggestion f provider task_title task_description =
     (case get_openai_client f of
        None \<Rightarrow> Some ''Optimize this task for better efficiency. (AI unavailable)''
      | Some client \<Rightarrow>
          (case provider client (build_prompt task_title task_description) of
             Raises_OpenAIError \<Rightarrow> Some ''Could not generate AI suggestion due to an API error.''
           | Raises_Exception \<Rightarrow> Some ''An unexpected error occurred while generating the suggestion.''
           | Response choices \<Rightarrow>
               (case choices of
                  [] \<Rightarrow> Some ''An unexpected error occurred while generating the suggestion.''
                | None # _ \<Rightarrow> Some ''An unexpected error occurred while generating the suggestion.''
                | Some content # _ \<Rightarrow> Some (py_strip content))))"

section \<open>dependencies.py\<close>

text \<open>\<open>verify_token\<close> raises an HTTPException or returns; \<open>secret\<close> is \<open>settings.api_auth_token\<close>.\<close>

definition verify_token :: "string \<Rightarrow> string option \<Rightarrow> error + unit" where
  "verify_token secret authorization =
     (case authorization of
        None \<Rightarrow> Inl (HTTPException 401 ''Authorization header missing'')
      | Some a \<Rightarrow>
          (case py_split a of
             [scheme, token] \<Rightarrow>
               if py_lower scheme \<noteq> ''bearer''
               then Inl (HTTPException 401 ''Invalid authorization scheme'')
               else if token \<noteq> secret then Inl (HTTPException 401 ''Invalid token'')
               else Inr ()
           | _ \<Rightarrow> Inl (HTTPException 401 ''Invalid authorization scheme'')))"

section \<open>routes.py\<close>

text \<open>
  What a request handler reads besides the store and the request: the settings, the
  credential file and the provider as they are at the time of the call, the clock of the
  store and the scan order of its engine.
\<close>

record world =
  api_auth_token :: string
  openai_api_key_file :: key_file
  provider :: "string \<Rightarrow> string \<Rightarrow> completion"
  clock :: datetime
  scan :: "Task list \<Rightarrow> Task list"

text \<open>
  The response model schemas.Task: the columns of the row (\<open>updated_at\<close> optional), the
  assignee and the suggestions, as the relationships load them.
\<close>

record Task_schema =
  columns :: Task
  assignee :: "User option"
  suggestions_of :: "AISuggestion list"

definition task_schema :: "db \<Rightarrow> Task \<Rightarrow> Task_schema" where
  "task_schema d t =
     \<lparr> columns = t,
       assignee = (case assignee_id t of None \<Rightarrow> None | Some a \<Rightarrow> get_user d a),
       suggestions_of = filter (\<lambda>s. task_id s = t_id t) (suggestions d) \<rparr>"

datatype response =
    Task_body Task_schema
  | Task_list "Task_schema list"
  | Suggestion_body AISuggestion
  | No_content

definition assignee_not_found :: "int \<Rightarrow> error" where
  "assignee_not_found a = HTTPException 404 (''Assignee user with id '' @ str_int a @ '' not found'')"

text \<open>\<open>create_new_task\<close> guards the lookup with \<open>if task.assignee_id:\<close>, the truth value of the id.\<close>

definition create_new_task :: "world \<Rightarrow> db \<Rightarrow> TaskCreate \<Rightarrow> db \<times> (error + response)" where
  "create_new_task w d task =
     (case (case attr None (c_assignee_id task) of
              None \<Rightarrow> None
            | Some a \<Rightarrow> if a \<noteq> 0 \<and> get_user d a = None then Some (assignee_not_found a) else None) of
        Some e \<Rightarrow> (d, Inl e)
      | None \<Rightarrow>
          (case create_task (clock w) d task of
             (d', Inl e) \<Rightarrow> (d', Inl e)
           | (d', Inr created_task) \<Rightarrow> (d', Inr (Task_body (task_schema d' created_task)))))"

definition read_task :: "db \<Rightarrow> int \<Rightarrow> db \<times> (error + response)" where
  "read_task d tid =
     (case get_task d tid of
        None \<Rightarrow> (d, Inl (HTTPException 404 ''Task not found''))
      | Some db_task \<Rightarrow> (d, Inr (Task_body (task_schema d db_task))))"

text \<open>\<open>update_existing_task\<close> guards the lookup with \<open>is not None\<close>.\<close>

definition update_existing_task :: "world \<Rightarrow> db \<Rightarrow> int \<Rightarrow> TaskUpdate \<Rightarrow> db \<times> (error + response)" where
  "update_existing_task w d tid task_update =
     (case (case attr None (x_assignee_id task_update) of
              None \<Rightarrow> None
            | Some a \<Rightarrow> if get_user d a = None then Some (assignee_not_found a) else None) of
        Some e \<Rightarrow> (d, Inl e)
      | None \<Rightarrow>
          (case update_task (clock w) d tid task_update of
             (d', Inl e) \<Rightarrow> (d', Inl e)
           | (d', Inr None) \<Rightarrow> (d', Inl (HTTPException 404 ''Task not found''))
           | (d', Inr (Some updated_task)) \<Rightarrow> (d', Inr (Task_body (task_schema d' updated_task)))))"

definition delete_existing_task :: "db \<Rightarrow> int \<Rightarrow> db \<times> (error + response)" where
  "delete_existing_task d tid =
     (case delete_task d tid of
        (d', success) \<Rightarrow>
          if \<not> success then (d', Inl (HTTPException 404 ''Task not found'')) else (d', Inr No_content))"

definition create_task_suggestion :: "world \<Rightarrow> db \<Rightarrow> int \<Rightarrow> db \<times> (error + response)" where
  "create_task_suggestion w d tid =
     (case get_task d tid of
        None \<Rightarrow> (d, Inl (HTTPException 404 ''Task not found''))
      | Some db_task \<Rightarrow>
          (case generate_ai_suggestion (openai_api_key_file w) (provider w) (title db_task) (description db_task) of
             None \<Rightarrow> (d, Inl (HTTPException 500 ''Failed to generate AI suggestion''))
           | Some text \<Rightarrow>
               (case create_ai_suggestion (clock w) d \<lparr> n_suggestion_text = text \<rparr> tid of
                  (d', Inl e) \<Rightarrow> (d', Inl e)
                | (d', Inr db_suggestion) \<Rightarrow> (d', Inr (Suggestion_body db_suggestion)))))"

definition read_tasks :: "world \<Rightarrow> db \<Rightarrow> nat \<Rightarrow> nat \<Rightarrow> db \<times> (error + response)" where
  "read_tasks w d skip limit = (d, Inr (Task_list (map (task_schema d) (get_tasks (scan w) d skip limit))))"

text \<open>
  The router: \<open>dependencies=[Depends(verify_token)]\<close> runs the gate before the handler
  of each of the six routes; a request that the gate rejects reaches no handler.
\<close>

datatype request =
    POST_tasks TaskCreate
  | GET_task int
  | PUT_task int TaskUpdate
  | DELETE_task int
  | POST_suggestions int
  | GET_tasks nat nat

fun route :: "world \<Rightarrow> db \<Rightarrow> request \<Rightarrow> db \<times> (error + response)" where
  "route w d (POST_tasks task) = create_new_task w d task"
| "route w d (GET_task tid) = read_task d tid"
| "route w d (PUT_task tid task_update) = update_existing_task w d tid task_update"
| "route w d (DELETE_task tid) = delete_existing_task d tid"
| "route w d (POST_suggestions tid) = create_task_suggestion w d tid"
| "route w d (GET_tasks skip limit) = read_tasks w d skip limit"

definition router :: "world \<Rightarrow> db \<Rightarrow> string option \<Rightarrow> request \<Rightarrow> db \<times> (error + response)" where
  "router w d authorization req =
     (case verify_token (api_auth_token w) authorization of
        Inl e \<Rightarrow> (d, Inl e)
      | Inr _ \<Rightarrow> route w d req)"

text \<open>A run of the service: the requests in the order they are served, each in its world.\<close>

fun serve :: "db \<Rightarrow> (world \<times> string option \<times> request) list \<Rightarrow> db" where
  "serve d [] = d"
| "serve d ((w, authorization, req) # rest) = serve (fst (router w d authorization req)) rest"

section \<open>Well-formed stores\<close>

text \<open>
  What the store's own constraints keep true of every state it reaches: primary keys are
  unique and below their sequence, every stored task satisfies the constraints of its
  table, and every suggestion refers to a stored task.
\<close>

definition wf_db :: "db \<Rightarrow> bool" where
  "wf_db d =
     (distinct (map t_id (tasks d)) \<and>
      list_all (\<lambda>t. t_id t < task_id_seq d \<and> task_constraints d t) (tasks d) \<and>
      distinct (map s_id (suggestions d)) \<and>
      list_all (\<lambda>s. s_id s < suggestion_id_seq d \<and> get_task d (task_id s) \<noteq> None) (suggestions d) \<and>
      distinct (map u_id (users d)))"

section \<open>Example data\<close>

text \<open>The store after start-up (main.py creates \<open>default_user\<close>), and a world without a credential file.\<close>

definition default_user :: User where
  "default_user = \<lparr> u_id = 1, username = ''default_user'', email = ''user@example.com'' \<rparr>"

definition empty_db :: db where
  "empty_db = \<lparr> users = [default_user], tasks = [], suggestions = [], task_id_seq = 1, suggestion_id_seq = 1 \<rparr>"

definition offline_world :: world where
  "offline_world = \<lparr> api_auth_token = ''s3cret'', openai_api_key_file = File_missing,
                       provider = (\<lambda>k p. Raises_OpenAIError), clock = 7, scan = (\<lambda>rows. rows) \<rparr>"

definition report_request :: TaskCreate where
  "report_request = \<lparr> c_title = ''Write report'', c_description = Unset, c_status = Unset, c_assignee_id = Unset \<rparr>"

definition task1 :: Task where
  "task1 = \<lparr> t_id = 1, title = Some ''Write report'', description = Some ''Quarterly numbers'',
              status = Some ''pending'', created_at = 7, updated_at = None, assignee_id = Some 1 \<rparr>"

definition task2 :: Task where
  "task2 = \<lparr> t_id = 2, title = Some ''Review'', description = None,
              status = Some ''completed'', created_at = 8, updated_at = Some 9, assignee_id = None \<rparr>"

definition sug1 :: AISuggestion where
  "sug1 = \<lparr> s_id = 1, suggestion_text = ''Split it by quarter.'', s_created_at = 10, task_id = 1 \<rparr>"

definition sug2 :: AISuggestion where
  "sug2 = \<lparr> s_id = 2, suggestion_text = ''Name a reviewer.'', s_created_at = 11, task_id = 2 \<rparr>"

definition sug3 :: AISuggestion where
  "sug3 = \<lparr> s_id = 3, suggestion_text = ''Set a deadline.'', s_created_at = 12, task_id = 1 \<rparr>"

definition busy_db :: db where
  "busy_db = \<lparr> users = [default_user], tasks = [task1, task2], suggestions = [sug1, sug2, sug3],
                task_id_seq = 3, suggestion_id_seq = 4 \<rparr>"

text \<open>A store of five tasks, numbered in the order of their creation.\<close>

definition numbered :: "int \<Rightarrow> Task" where
  "numbered n = \<lparr> t_id = n, title = Some ''Task'', description = None, status = Some ''pending'',
                   created_at = nat n, updated_at = None, assignee_id = None \<rparr>"

definition five_db :: db where
  "five_db = \<lparr> users = [default_user],
                tasks = [numbered 1, numbered 2, numbered 3, numbered 4, numbered 5],
                suggestions = [], task_id_seq = 6, suggestion_id_seq = 1 \<rparr>"




definition status_done :: TaskUpdate where
  "status_done = \<lparr> x_title = Unset, x_description = Unset, x_status = Given (Some ''done''), x_assignee_id = Unset \<rparr>"


section \<open>Runs without an update of a task\<close>

text \<open>
  \<open>no_successful_update i d reqs\<close>: in the run \<open>reqs\<close> from the store \<open>d\<close>, every PUT
  for task \<open>i\<close> is answered with an error. \<open>untouched i d d'\<close>: the id sequence has not
  gone back and the row under \<open>i\<close>, if there still is one, is the row it was.
\<close>

fun is_update_of :: "int \<Rightarrow> request \<Rightarrow> bool" where
  "is_update_of i (PUT_task j u) = (j = i)"
| "is_update_of i req = False"

fun no_successful_update :: "int \<Rightarrow> db \<Rightarrow> (world \<times> string option \<times> request) list \<Rightarrow> bool" where
  "no_successful_update i d [] = True"
| "no_successful_update i d ((w, authorization, req) # rest) =
     ((\<not> is_update_of i req \<or> isl (snd (router w d authorization req))) \<and>
      no_successful_update i (fst (router w d authorization req)) rest)"

definition untouched :: "int \<Rightarrow> db \<Rightarrow> db \<Rightarrow> bool" where
  "untouched i d d' =
     (task_id_seq d \<le> task_id_seq d' \<and> (get_task d' i = None \<or> get_task d' i = get_task d i))"

text \<open>
  A run in which an update of task 1 is turned away at the gate and a suggestion is then
  attached to the task.
\<close>

definition quiet_run :: "(world \<times> string option \<times> request) list" where
  "quiet_run = [(offline_world, None, PUT_task 1 status_done),
                (offline_world, Some ''Bearer s3cret'', POST_suggestions 1)]"

text \<open>Requests with an empty status and with assignee ids that no user has.\<close>

definition blank_status_request :: TaskCreate where
  "blank_status_request = \<lparr> c_title = ''Write report'', c_description = Unset,
                             c_status = Given (Some ''''), c_assignee_id = Unset \<rparr>"

definition blank_status_update :: TaskUpdate where
  "blank_status_update = \<lparr> x_title = Unset, x_description = Unset, x_status = Given (Some ''''),
                            x_assignee_id = Unset \<rparr>"

definition assignee_zero_request :: TaskCreate where
  "assignee_zero_request = \<lparr> c_title = ''Write report'', c_description = Unset,
                              c_status = Unset, c_assignee_id = Given (Some 0) \<rparr>"

definition assignee_9999_request :: TaskCreate where
  "assignee_9999_request = \<lparr> c_title = ''Write report'', c_description = Unset,
                              c_status = Unset, c_assignee_id = Given (Some 9999) \<rparr>"

definition assign_zero :: TaskUpdate where
  "assign_zero = \<lparr> x_title = Unset, x_description = Unset, x_status = Unset,
                    x_assignee_id = Given (Some 0) \<rparr>"



definition sk_test_file :: string where
  "sk_test_file = ''sk-test'' @ [CHR 0x0A]"

definition api_error_world :: world where
  "api_error_world = \<lparr> api_auth_token = ''s3cret'',
                         openai_api_key_file = File_text sk_test_file,
                         provider = (\<lambda>k p. Raises_OpenAIError), clock = 7, scan = (\<lambda>rows. rows) \<rparr>"

definition broken_world :: world where
  "broken_world = \<lparr> api_auth_token = ''s3cret'',
                      openai_api_key_file = File_text sk_test_file,
                      provider = (\<lambda>k p. Raises_Exception), clock = 7, scan = (\<lambda>rows. rows) \<rparr>"

definition online_world :: world where
  "online_world = \<lparr> api_auth_token = ''s3cret'',
                      openai_api_key_file = File_text sk_test_file,
                      provider = (\<lambda>k p. if k = ''sk-test'' then Response [Some '' Name a deadline. '']
                                          else Raises_OpenAIError),
                      clock = 7, scan = (\<lambda>rows. rows) \<rparr>"

definition nul_world :: world where
  "nul_world = \<lparr> api_auth_token = ''s3cret'',
                   openai_api_key_file = File_text sk_test_file,
                   provider = (\<lambda>k p. Response [Some [CHR ''a'', CHR 0x00, CHR ''b'']]),
                   clock = 7, scan = (\<lambda>rows. rows) \<rparr>"

section \<open>Lookups in a table\<close>

lemma find_None_below: "list_all (\<lambda>t. t_id t < n) xs \<Longrightarrow> find (\<lambda>t. t_id t = (n::int)) xs = None"
  by (induction xs) auto

lemma find_append_fresh:
  "find P xs = None \<Longrightarrow> find P (xs @ [x]) = (if P x then Some x else None)"
  by (induction xs) (auto split: if_splits)

lemma find_append_other:
  "\<not> P x \<Longrightarrow> find P (xs @ [x]) = find P xs"
  by (induction xs) auto

lemma find_append_found: "find P xs = Some y \<Longrightarrow> find P (xs @ ys) = Some y"
  by (induction xs) (auto split: if_splits)

lemma find_Some_holds: "find P xs = Some x \<Longrightarrow> P x \<and> x \<in> set xs"
  by (induction xs) (auto split: if_splits)

lemma find_filter_keep: "(\<And>x. P x \<Longrightarrow> Q x) \<Longrightarrow> find P (filter Q xs) = find P xs"
  by (induction xs) auto

lemma find_filter_drop: "(\<And>x. P x \<Longrightarrow> \<not> Q x) \<Longrightarrow> find P (filter Q xs) = None"
  by (induction xs) auto


lemma find_map_replace_other:
  "t_id row = i \<Longrightarrow> j \<noteq> i \<Longrightarrow>
   find (\<lambda>t. t_id t = j) (map (\<lambda>t. if t_id t = i then row else t) xs) = find (\<lambda>t. t_id t = j) xs"
  by (induction xs) auto

lemma find_map_replace_found:
  "t_id row = j \<Longrightarrow>
   (find (\<lambda>t. t_id t = k) (map (\<lambda>x. if t_id x = j then row else x) xs) = None) =
   (find (\<lambda>t. t_id t = k) xs = None)"
  by (induction xs) auto

lemma map_t_id_replace:
  "t_id row = j \<Longrightarrow> map t_id (map (\<lambda>x. if t_id x = j then row else x) xs) = map t_id xs"
  by (induction xs) auto

lemma get_task_id: "get_task d tid = Some t \<Longrightarrow> t_id t = tid"
  by (auto simp: get_task_def dest: find_Some_holds)

lemma wf_db_ids_below: "wf_db d \<Longrightarrow> list_all (\<lambda>t. t_id t < task_id_seq d) (tasks d)"
  by (auto simp: wf_db_def list_all_iff)


lemma wf_empty_db: "wf_db empty_db"
  by (simp add: wf_db_def empty_db_def)


lemma bearer_s3cret_passes: "verify_token ''s3cret'' (Some ''Bearer s3cret'') = Inr ()"
  by code_simp

lemma str_int_0: "str_int 0 = ''0''"
  by (simp add: str_int_def str_nat.simps digit_char_def)

lemma str_int_9999: "str_int 9999 = ''9999''"
  by (simp add: str_int_def str_nat.simps digit_char_def)

section \<open>Creating a task\<close>





section \<open>Deleting a task\<close>

lemma delete_task_found:
  "get_task d tid = Some t \<Longrightarrow>
   delete_task d tid =
     (d\<lparr> tasks := filter (\<lambda>x. t_id x \<noteq> tid) (tasks d),
         suggestions := filter (\<lambda>s. task_id s \<noteq> tid) (suggestions d) \<rparr>, True)"
  by (simp add: delete_task_def get_task_id)

text \<open>
  Claim C6. For every task id: when no task has the id, \<open>delete_task\<close> returns
  \<open>False\<close> and the store is unchanged (the route answers 404); otherwise it returns
  \<open>True\<close> (a success flag, not the deleted row; the route answers with no content),
  the task is gone, no suggestion of the task is left (their count is zero), the
  suggestions of the other tasks, the other tasks and the users are as before.
\<close>

theorem delete_task_cascade:
  "(get_task d tid = None \<longrightarrow>
      delete_task d tid = (d, False) \<and>
      delete_existing_task d tid = (d, Inl (HTTPException 404 ''Task not found''))) \<and>
   (get_task d tid \<noteq> None \<longrightarrow>
      (\<exists>d'. delete_task d tid = (d', True) \<and>
            delete_existing_task d tid = (d', Inr No_content) \<and>
            get_task d' tid = None \<and>
            length (filter (\<lambda>s. task_id s = tid) (suggestions d')) = 0 \<and>
            suggestions d' = filter (\<lambda>s. task_id s \<noteq> tid) (suggestions d) \<and>
            (\<forall>j. j \<noteq> tid \<longrightarrow> get_task d' j = get_task d j) \<and>
            users d' = users d))"
proof (cases "get_task d tid")
  case None
  then show ?thesis by (simp add: delete_task_def delete_existing_task_def)
next
  case (Some t)
  have gone: "find (\<lambda>x. t_id x = tid) (filter (\<lambda>x. t_id x \<noteq> tid) (tasks d)) = None"
    by (rule find_filter_drop) simp
  have kept: "\<And>j. j \<noteq> tid \<Longrightarrow>
      find (\<lambda>x. t_id x = j) (filter (\<lambda>x. t_id x \<noteq> tid) (tasks d)) = find (\<lambda>x. t_id x = j) (tasks d)"
    by (rule find_filter_keep) simp
  have none_left: "filter (\<lambda>s. task_id s = tid) (filter (\<lambda>s. task_id s \<noteq> tid) (suggestions d)) = []"
    by (induction "suggestions d") (auto simp: filter_empty_conv)
  show ?thesis
    using Some gone kept none_left
    by (simp add: delete_task_found delete_existing_task_def get_task_def)
qed

theorem delete_task_cascade_witness:
  "get_task busy_db 99 = None \<and> delete_task busy_db 99 = (busy_db, False) \<and>
   get_task busy_db 1 \<noteq> None \<and>
   (\<exists>d'. delete_task busy_db 1 = (d', True) \<and> get_task d' 1 = None \<and>
         suggestions d' = [sug2] \<and> get_task d' 2 = get_task busy_db 2)"
proof -
  have absent: "get_task busy_db 99 = None" and present: "get_task busy_db 1 \<noteq> None"
    by (simp_all add: get_task_def busy_db_def task1_def task2_def)
  have rest: "filter (\<lambda>s. task_id s \<noteq> 1) (suggestions busy_db) = [sug2]"
    by (simp add: busy_db_def sug1_def sug2_def sug3_def)
  from delete_task_cascade [of busy_db 99] delete_task_cascade [of busy_db 1] absent present rest
  show ?thesis by auto
qed

section \<open>Attaching a suggestion\<close>

lemma generate_ai_suggestion_total:
  "\<exists>sgt. generate_ai_suggestion kf p ttl dsc = Some sgt"
  by (simp add: generate_ai_suggestion_def split: option.split completion.split list.split)

lemma create_ai_suggestion_existing:
  "get_task d tid = Some t \<Longrightarrow> CHR 0x00 \<notin> set (n_suggestion_text sg) \<Longrightarrow>
   create_ai_suggestion now d sg tid =
     (d\<lparr> suggestions := suggestions d @ [\<lparr> s_id = suggestion_id_seq d, suggestion_text = n_suggestion_text sg,
                                             s_created_at = now, task_id = tid \<rparr>],
         suggestion_id_seq := suggestion_id_seq d + 1 \<rparr>,
      Inr \<lparr> s_id = suggestion_id_seq d, suggestion_text = n_suggestion_text sg, s_created_at = now, task_id = tid \<rparr>)"
  by (simp add: create_ai_suggestion_def nul_free_def Let_def)

lemma create_ai_suggestion_nul:
  "CHR 0x00 \<in> set (n_suggestion_text sg) \<Longrightarrow> create_ai_suggestion now d sg tid = (d, Inl ValueError)"
  by (simp add: create_ai_suggestion_def nul_free_def Let_def)

lemma no_key_no_client:
  "kf = File_missing \<or> kf = File_unreadable \<or> (\<exists>s. kf = File_text s \<and> py_strip s = []) \<Longrightarrow>
   get_openai_client kf = None"
  by (auto simp: get_openai_client_def get_openai_api_key_def)

lemma key_gives_client:
  "py_strip key \<noteq> [] \<Longrightarrow> get_openai_client (File_text key) = Some (py_strip key)"
  by (simp add: get_openai_client_def get_openai_api_key_def Let_def)

lemma generate_with_key:
  "py_strip key \<noteq> [] \<Longrightarrow>
   generate_ai_suggestion (File_text key) p ttl dsc =
     (case p (py_strip key) (build_prompt ttl dsc) of
        Raises_OpenAIError \<Rightarrow> Some ''Could not generate AI suggestion due to an API error.''
      | Raises_Exception \<Rightarrow> Some ''An unexpected error occurred while generating the suggestion.''
      | Response choices \<Rightarrow>
          (case choices of
             [] \<Rightarrow> Some ''An unexpected error occurred while generating the suggestion.''
           | None # _ \<Rightarrow> Some ''An unexpected error occurred while generating the suggestion.''
           | Some content # _ \<Rightarrow> Some (py_strip content)))"
  by (simp add: generate_ai_suggestion_def key_gives_client)

lemma attach_stored:
  assumes found: "get_task d tid = Some t"
    and gen: "generate_ai_suggestion (openai_api_key_file w) (provider w) (title t) (description t) = Some sgt"
    and free: "CHR 0x00 \<notin> set sgt"
  shows "create_task_suggestion w d tid =
     (d\<lparr> suggestions := suggestions d @ [\<lparr> s_id = suggestion_id_seq d, suggestion_text = sgt,
                                             s_created_at = clock w, task_id = tid \<rparr>],
         suggestion_id_seq := suggestion_id_seq d + 1 \<rparr>,
      Inr (Suggestion_body \<lparr> s_id = suggestion_id_seq d, suggestion_text = sgt,
                              s_created_at = clock w, task_id = tid \<rparr>))"
proof -
  have "create_ai_suggestion (clock w) d \<lparr> n_suggestion_text = sgt \<rparr> tid =
     (d\<lparr> suggestions := suggestions d @ [\<lparr> s_id = suggestion_id_seq d, suggestion_text = sgt,
                                             s_created_at = clock w, task_id = tid \<rparr>],
         suggestion_id_seq := suggestion_id_seq d + 1 \<rparr>,
      Inr \<lparr> s_id = suggestion_id_seq d, suggestion_text = sgt, s_created_at = clock w, task_id = tid \<rparr>)"
    using create_ai_suggestion_existing [OF found, of "\<lparr> n_suggestion_text = sgt \<rparr>" "clock w"] free
    by simp
  then show ?thesis
    using found gen by (simp add: create_task_suggestion_def)
qed

text \<open>
  Claim C2, as amended. For every existing task, when the text that
  \<open>generate_ai_suggestion\<close> returns holds no U+0000, the attach-suggestion route returns
  a new suggestion that it has stored: linked to the task, with a generated id and the
  time of the insert, its text being the generated one. The connector returns a text in
  every case: the first fall-back text when the credential file is missing, unreadable
  or empty; with a credential file that holds a key, the second fall-back text when the
  provider, called with that key, raises its own error, the third when anything else
  goes wrong (another exception, no choice, a choice without content), and the stripped
  content otherwise. The three fall-back texts differ and hold no U+0000, so each of
  them is stored like any other suggestion.
\<close>

theorem create_task_suggestion_always_stored:
  "(get_task d tid = Some t \<and>
    generate_ai_suggestion (openai_api_key_file w) (provider w) (title t) (description t) = Some sgt \<and>
    CHR 0x00 \<notin> set sgt \<longrightarrow>
      (\<exists>d' s. create_task_suggestion w d tid = (d', Inr (Suggestion_body s)) \<and>
         suggestion_text s = sgt \<and> task_id s = tid \<and> s_id s = suggestion_id_seq d \<and>
         s_created_at s = clock w \<and>
         suggestions d' = suggestions d @ [s] \<and> tasks d' = tasks d \<and> users d' = users d)) \<and>
   (kf = File_missing \<or> kf = File_unreadable \<or> (\<exists>s. kf = File_text s \<and> py_strip s = []) \<longrightarrow>
      generate_ai_suggestion kf p ttl dsc = Some ''Optimize this task for better efficiency. (AI unavailable)'') \<and>
   (py_strip key \<noteq> [] \<and> p (py_strip key) (build_prompt ttl dsc) = Raises_OpenAIError \<longrightarrow>
      generate_ai_suggestion (File_text key) p ttl dsc =
        Some ''Could not generate AI suggestion due to an API error.'') \<and>
   (py_strip key \<noteq> [] \<and>
      (p (py_strip key) (build_prompt ttl dsc) = Raises_Exception \<or>
       p (py_strip key) (build_prompt ttl dsc) = Response [] \<or>
       (\<exists>rest. p (py_strip key) (build_prompt ttl dsc) = Response (None # rest))) \<longrightarrow>
      generate_ai_suggestion (File_text key) p ttl dsc =
        Some ''An unexpected error occurred while generating the suggestion.'') \<and>
   (py_strip key \<noteq> [] \<and> p (py_strip key) (build_prompt ttl dsc) = Response (Some content # rest) \<longrightarrow>
      generate_ai_suggestion (File_text key) p ttl dsc = Some (py_strip content)) \<and>
   distinct [''Optimize this task for better efficiency. (AI unavailable)'',
             ''Could not generate AI suggestion due to an API error.'',
             ''An unexpected error occurred while generating the suggestion.''] \<and>
   CHR 0x00 \<notin> set ''Optimize this task for better efficiency. (AI unavailable)'' \<and>
   CHR 0x00 \<notin> set ''Could not generate AI suggestion due to an API error.'' \<and>
   CHR 0x00 \<notin> set ''An unexpected error occurred while generating the suggestion.''"
proof -
  have stored: "get_task d tid = Some t \<and>
    generate_ai_suggestion (openai_api_key_file w) (provider w) (title t) (description t) = Some sgt \<and>
    CHR 0x00 \<notin> set sgt \<longrightarrow>
      (\<exists>d' s. create_task_suggestion w d tid = (d', Inr (Suggestion_body s)) \<and>
         suggestion_text s = sgt \<and> task_id s = tid \<and> s_id s = suggestion_id_seq d \<and>
         s_created_at s = clock w \<and>
         suggestions d' = suggestions d @ [s] \<and> tasks d' = tasks d \<and> users d' = users d)"
    by (auto simp: attach_stored)
  have unavailable: "kf = File_missing \<or> kf = File_unreadable \<or> (\<exists>s. kf = File_text s \<and> py_strip s = []) \<longrightarrow>
      generate_ai_suggestion kf p ttl dsc = Some ''Optimize this task for better efficiency. (AI unavailable)''"
    by (auto simp: generate_ai_suggestion_def no_key_no_client)
  have api: "py_strip key \<noteq> [] \<and> p (py_strip key) (build_prompt ttl dsc) = Raises_OpenAIError \<longrightarrow>
      generate_ai_suggestion (File_text key) p ttl dsc =
        Some ''Could not generate AI suggestion due to an API error.''"
    by (simp add: generate_with_key)
  have unexpected: "py_strip key \<noteq> [] \<and>
      (p (py_strip key) (build_prompt ttl dsc) = Raises_Exception \<or>
       p (py_strip key) (build_prompt ttl dsc) = Response [] \<or>
       (\<exists>rest. p (py_strip key) (build_prompt ttl dsc) = Response (None # rest))) \<longrightarrow>
      generate_ai_suggestion (File_text key) p ttl dsc =
        Some ''An unexpected error occurred while generating the suggestion.''"
    by (auto simp: generate_with_key)
  have answer: "py_strip key \<noteq> [] \<and> p (py_strip key) (build_prompt ttl dsc) = Response (Some content # rest) \<longrightarrow>
      generate_ai_suggestion (File_text key) p ttl dsc = Some (py_strip content)"
    by (simp add: generate_with_key)
  have texts: "distinct [''Optimize this task for better efficiency. (AI unavailable)'',
             ''Could not generate AI suggestion due to an API error.'',
             ''An unexpected error occurred while generating the suggestion.''] \<and>
   CHR 0x00 \<notin> set ''Optimize this task for better efficiency. (AI unavailable)'' \<and>
   CHR 0x00 \<notin> set ''Could not generate AI suggestion due to an API error.'' \<and>
   CHR 0x00 \<notin> set ''An unexpected error occurred while generating the suggestion.''"
    by simp
  from stored unavailable api unexpected answer texts show ?thesis
    by (intro conjI) (elim conjE, assumption)+
qed

lemma strip_sk_test: "py_strip sk_test_file = ''sk-test''"
  by code_simp

lemma strip_answer: "py_strip '' Name a deadline. '' = ''Name a deadline.''"
  by code_simp

text \<open>
  Claim C2 as stated fails: for the existing task 1, a provider that answers with a
  content holding U+0000 makes \<open>generate_ai_suggestion\<close> return that text, the
  insert of the suggestion is refused (ValueError, answered with status 500) and nothing
  is stored.
\<close>

theorem create_task_suggestion_nul_counterexample:
  "get_task busy_db 1 = Some task1 \<and>
   generate_ai_suggestion (openai_api_key_file nul_world) (provider nul_world) (title task1) (description task1)
     = Some [CHR ''a'', CHR 0x00, CHR ''b''] \<and>
   create_task_suggestion nul_world busy_db 1 = (busy_db, Inl ValueError) \<and>
   status_code ValueError = 500"
proof -
  have found: "get_task busy_db 1 = Some task1"
    by (simp add: get_task_def busy_db_def task1_def task2_def)
  have strip: "py_strip [CHR ''a'', CHR 0x00, CHR ''b''] = [CHR ''a'', CHR 0x00, CHR ''b'']"
    by code_simp
  have gen: "generate_ai_suggestion (openai_api_key_file nul_world) (provider nul_world) (title task1) (description task1)
     = Some [CHR ''a'', CHR 0x00, CHR ''b'']"
    using generate_with_key [of sk_test_file "provider nul_world" "title task1" "description task1"]
    by (simp add: nul_world_def strip_sk_test strip)
  have refused: "create_ai_suggestion (clock nul_world) busy_db \<lparr> n_suggestion_text = [CHR ''a'', CHR 0x00, CHR ''b''] \<rparr> 1
      = (busy_db, Inl ValueError)"
    by (rule create_ai_suggestion_nul) simp
  show ?thesis
    using found gen refused by (simp add: create_task_suggestion_def)
qed

theorem create_task_suggestion_always_stored_witness:
  "(\<exists>d' s. create_task_suggestion online_world busy_db 1 = (d', Inr (Suggestion_body s)) \<and>
       suggestion_text s = ''Name a deadline.'' \<and> task_id s = 1 \<and> s_id s = 4 \<and>
       suggestions d' = [sug1, sug2, sug3, s]) \<and>
   generate_ai_suggestion (openai_api_key_file offline_world) (provider offline_world) (title task1) (description task1)
     = Some ''Optimize this task for better efficiency. (AI unavailable)'' \<and>
   generate_ai_suggestion (File_text [CHR 0x0A]) (provider online_world) (title task1) (description task1)
     = Some ''Optimize this task for better efficiency. (AI unavailable)'' \<and>
   generate_ai_suggestion (openai_api_key_file api_error_world) (provider api_error_world) (title task1) (description task1)
     = Some ''Could not generate AI suggestion due to an API error.'' \<and>
   generate_ai_suggestion (openai_api_key_file broken_world) (provider broken_world) (title task1) (description task1)
     = Some ''An unexpected error occurred while generating the suggestion.'' \<and>
   generate_ai_suggestion (openai_api_key_file online_world) (\<lambda>k p. Response [None]) (title task1) (description task1)
     = Some ''An unexpected error occurred while generating the suggestion.'' \<and>
   generate_ai_suggestion (openai_api_key_file online_world) (provider online_world) (title task1) (description task1)
     = Some ''Name a deadline.''"
proof -
  have found: "get_task busy_db 1 = Some task1"
    by (simp add: get_task_def busy_db_def task1_def task2_def)
  have blank: "py_strip [CHR 0x0A] = []"
    by code_simp
  have key: "py_strip sk_test_file \<noteq> []"
    by (simp add: strip_sk_test)
  note online = create_task_suggestion_always_stored
    [where d = busy_db and tid = 1 and t = task1 and w = online_world and sgt = "''Name a deadline.''"
       and kf = File_missing and p = "provider online_world" and ttl = "title task1" and dsc = "description task1"
       and key = sk_test_file and content = "'' Name a deadline. ''" and rest = "[]"]
  note empty = create_task_suggestion_always_stored
    [where kf = "File_text [CHR 0x0A]" and p = "provider online_world" and ttl = "title task1" and dsc = "description task1"]
  note api = create_task_suggestion_always_stored
    [where p = "provider api_error_world" and ttl = "title task1" and dsc = "description task1"
       and key = sk_test_file]
  note broken = create_task_suggestion_always_stored
    [where p = "provider broken_world" and ttl = "title task1" and dsc = "description task1"
       and key = sk_test_file]
  note no_content = create_task_suggestion_always_stored
    [where p = "\<lambda>k p. Response [None]" and ttl = "title task1" and dsc = "description task1"
       and key = sk_test_file]
  have answer: "generate_ai_suggestion (openai_api_key_file online_world) (provider online_world) (title task1) (description task1)
     = Some ''Name a deadline.''"
    using online [THEN conjunct2, THEN conjunct2, THEN conjunct2, THEN conjunct2, THEN conjunct1] key
    by (simp add: online_world_def strip_sk_test strip_answer)
  have stored: "\<exists>d' s. create_task_suggestion online_world busy_db 1 = (d', Inr (Suggestion_body s)) \<and>
       suggestion_text s = ''Name a deadline.'' \<and> task_id s = 1 \<and> s_id s = 4 \<and>
       suggestions d' = [sug1, sug2, sug3, s]"
  proof -
    have nul: "CHR 0x00 \<notin> set ''Name a deadline.''" by simp
    from online [THEN conjunct1] found answer nul
    obtain d' s where "create_task_suggestion online_world busy_db 1 = (d', Inr (Suggestion_body s))"
      and "suggestion_text s = ''Name a deadline.''" and "task_id s = 1"
      and "s_id s = suggestion_id_seq busy_db" and "suggestions d' = suggestions busy_db @ [s]"
      by blast
    then show ?thesis by (simp add: busy_db_def)
  qed
  have unavailable: "generate_ai_suggestion (openai_api_key_file offline_world) (provider offline_world) (title task1) (description task1)
     = Some ''Optimize this task for better efficiency. (AI unavailable)''"
    using online [THEN conjunct2, THEN conjunct1]
    by (simp add: offline_world_def generate_ai_suggestion_def get_openai_client_def get_openai_api_key_def)
  have unavailable2: "generate_ai_suggestion (File_text [CHR 0x0A]) (provider online_world) (title task1) (description task1)
     = Some ''Optimize this task for better efficiency. (AI unavailable)''"
    using empty [THEN conjunct2, THEN conjunct1] blank by simp
  have api_error: "generate_ai_suggestion (openai_api_key_file api_error_world) (provider api_error_world) (title task1) (description task1)
     = Some ''Could not generate AI suggestion due to an API error.''"
    using api [THEN conjunct2, THEN conjunct2, THEN conjunct1] key
    by (simp add: api_error_world_def)
  have unexpected: "generate_ai_suggestion (openai_api_key_file broken_world) (provider broken_world) (title task1) (description task1)
     = Some ''An unexpected error occurred while generating the suggestion.''"
    using broken [THEN conjunct2, THEN conjunct2, THEN conjunct2, THEN conjunct1] key
    by (simp add: broken_world_def)
  have unexpected2: "generate_ai_suggestion (openai_api_key_file online_world) (\<lambda>k p. Response [None]) (title task1) (description task1)
     = Some ''An unexpected error occurred while generating the suggestion.''"
    using no_content [THEN conjunct2, THEN conjunct2, THEN conjunct2, THEN conjunct1] key
    by (simp add: online_world_def)
  from stored unavailable unavailable2 api_error unexpected unexpected2 answer show ?thesis
    by (intro conjI)
qed

text \<open>
  Claim C9. \<open>generate_ai_suggestion\<close> never returns \<open>None\<close>: each of its return
  statements returns a text. So the branch of the attach-suggestion route that raises
  the 500 error "Failed to generate AI suggestion" is never taken: for a missing task
  the route answers 404, for an existing one it goes on to store the generated text.
\<close>

theorem suggestion_failure_branch_unreachable:
  "generate_ai_suggestion kf p ttl dsc \<noteq> None \<and>
   snd (create_task_suggestion w d tid) \<noteq> Inl (HTTPException 500 ''Failed to generate AI suggestion'') \<and>
   (case get_task d tid of
      None \<Rightarrow> create_task_suggestion w d tid = (d, Inl (HTTPException 404 ''Task not found''))
    | Some t \<Rightarrow>
        (\<exists>sgt. generate_ai_suggestion (openai_api_key_file w) (provider w) (title t) (description t) = Some sgt \<and>
           create_task_suggestion w d tid =
             (case create_ai_suggestion (clock w) d \<lparr> n_suggestion_text = sgt \<rparr> tid of
                (d', Inl e) \<Rightarrow> (d', Inl e)
              | (d', Inr s) \<Rightarrow> (d', Inr (Suggestion_body s)))))"
proof -
  have total: "generate_ai_suggestion kf p ttl dsc \<noteq> None"
    using generate_ai_suggestion_total [of kf p ttl dsc] by auto
  have store_errors: "\<And>sgt. snd (case create_ai_suggestion (clock w) d \<lparr> n_suggestion_text = sgt \<rparr> tid of
                (d', Inl e) \<Rightarrow> (d', Inl e)
              | (d', Inr s) \<Rightarrow> (d', Inr (Suggestion_body s)))
        \<noteq> Inl (HTTPException 500 ''Failed to generate AI suggestion'')"
    by (simp add: create_ai_suggestion_def Let_def)
  show ?thesis
  proof (cases "get_task d tid")
    case None
    then show ?thesis using total by (simp add: create_task_suggestion_def)
  next
    case (Some t)
    obtain sgt where gen: "generate_ai_suggestion (openai_api_key_file w) (provider w) (title t) (description t) = Some sgt"
      using generate_ai_suggestion_total by blast
    have route: "create_task_suggestion w d tid =
             (case create_ai_suggestion (clock w) d \<lparr> n_suggestion_text = sgt \<rparr> tid of
                (d', Inl e) \<Rightarrow> (d', Inl e)
              | (d', Inr s) \<Rightarrow> (d', Inr (Suggestion_body s)))"
      using Some gen by (simp add: create_task_suggestion_def)
    show ?thesis
      using total Some gen route store_errors [of sgt] by simp
  qed
qed

section \<open>The access gate\<close>

lemma split_from_word:
  "list_all (\<lambda>c. \<not> py_isspace c) s \<Longrightarrow> split_from w s = (if w @ s = [] then [] else [w @ s])"
  by (induction s arbitrary: w) auto

lemma split_from_words:
  "list_all (\<lambda>c. \<not> py_isspace c) w \<Longrightarrow>
   list_all (\<lambda>x. x \<noteq> [] \<and> list_all (\<lambda>c. \<not> py_isspace c) x) (split_from w s)"
  by (induction s arbitrary: w) auto

lemma py_split_words:
  "list_all (\<lambda>x. x \<noteq> [] \<and> list_all (\<lambda>c. \<not> py_isspace c) x) (py_split s)"
  unfolding py_split_def by (rule split_from_words) simp

lemma py_split_Bearer:
  assumes "secret \<noteq> []" and "list_all (\<lambda>c. \<not> py_isspace c) secret"
  shows "py_split (''Bearer '' @ secret) = [''Bearer'', secret]"
  using assms by (simp add: py_split_def py_isspace_def split_from_word)

lemma py_lower_Bearer: "py_lower ''Bearer'' = ''bearer''"
  by code_simp

lemma verify_token_cases:
  "verify_token secret h =
     (case h of
        None \<Rightarrow> Inl (HTTPException 401 ''Authorization header missing'')
      | Some a \<Rightarrow>
          if (\<exists>scheme token. py_split a = [scheme, token] \<and> py_lower scheme = ''bearer'')
          then (if py_split a ! 1 = secret then Inr () else Inl (HTTPException 401 ''Invalid token''))
          else Inl (HTTPException 401 ''Invalid authorization scheme''))"
  by (auto simp: verify_token_def split: option.split list.split)

text \<open>
  Claim C3, as amended. The gate passes a request exactly when its Authorization header,
  split at white space, is two words, the first being "bearer" in any letter case and
  the second equal to the configured secret. Otherwise it rejects with exactly one of
  three reasons: the header is missing; the header is not such a pair of words (invalid
  scheme); the second word is not the secret (invalid token). Each of the three is
  answered with the status code 401 and with a detail text of its own, so the three
  answers differ and the client is told which reason applied. When the secret is a
  non-empty word without white space, the header "Bearer", a space and the secret
  passes; a secret that is empty or contains white space is one that no header passes.
  The router runs the gate before the handler of every task route: a rejected request
  gets the gate's error and leaves the store unchanged, whatever the route; a request
  that passes gets what its handler does.
\<close>

theorem verify_token_pass_iff:
  "(verify_token secret h = Inr () \<longleftrightarrow>
      (\<exists>a scheme. h = Some a \<and> py_split a = [scheme, secret] \<and> py_lower scheme = ''bearer'')) \<and>
   (verify_token secret h = Inl (HTTPException 401 ''Authorization header missing'') \<longleftrightarrow> h = None) \<and>
   (verify_token secret h = Inl (HTTPException 401 ''Invalid token'') \<longleftrightarrow>
      (\<exists>a scheme token. h = Some a \<and> py_split a = [scheme, token] \<and> py_lower scheme = ''bearer'' \<and>
         token \<noteq> secret)) \<and>
   (verify_token secret h = Inl (HTTPException 401 ''Invalid authorization scheme'') \<longleftrightarrow>
      (\<exists>a. h = Some a \<and> \<not> (\<exists>scheme token. py_split a = [scheme, token] \<and> py_lower scheme = ''bearer''))) \<and>
   (verify_token secret h = Inr () \<or>
    verify_token secret h = Inl (HTTPException 401 ''Authorization header missing'') \<or>
    verify_token secret h = Inl (HTTPException 401 ''Invalid authorization scheme'') \<or>
    verify_token secret h = Inl (HTTPException 401 ''Invalid token'')) \<and>
   (\<forall>e. verify_token secret h = Inl e \<longrightarrow> status_code e = 401) \<and>
   (secret \<noteq> [] \<and> list_all (\<lambda>c. \<not> py_isspace c) secret \<longrightarrow>
      verify_token secret (Some (''Bearer '' @ secret)) = Inr ()) \<and>
   (verify_token secret h = Inr () \<longrightarrow> secret \<noteq> [] \<and> list_all (\<lambda>c. \<not> py_isspace c) secret) \<and>
   (\<forall>e. verify_token (api_auth_token w) h = Inl e \<longrightarrow> router w d h req = (d, Inl e)) \<and>
   (verify_token (api_auth_token w) h = Inr () \<longrightarrow> router w d h req = route w d req) \<and>
   distinct [HTTPException 401 ''Authorization header missing'',
             HTTPException 401 ''Invalid authorization scheme'',
             HTTPException 401 ''Invalid token'']"
proof -
  have pass: "verify_token secret h = Inr () \<longleftrightarrow>
      (\<exists>a scheme. h = Some a \<and> py_split a = [scheme, secret] \<and> py_lower scheme = ''bearer'')"
    by (auto simp: verify_token_cases split: option.split)
  have missing: "verify_token secret h = Inl (HTTPException 401 ''Authorization header missing'') \<longleftrightarrow> h = None"
    by (auto simp: verify_token_cases split: option.split)
  have mismatch: "verify_token secret h = Inl (HTTPException 401 ''Invalid token'') \<longleftrightarrow>
      (\<exists>a scheme token. h = Some a \<and> py_split a = [scheme, token] \<and> py_lower scheme = ''bearer'' \<and>
         token \<noteq> secret)"
    by (auto simp: verify_token_cases split: option.split)
  have scheme: "verify_token secret h = Inl (HTTPException 401 ''Invalid authorization scheme'') \<longleftrightarrow>
      (\<exists>a. h = Some a \<and> \<not> (\<exists>scheme token. py_split a = [scheme, token] \<and> py_lower scheme = ''bearer''))"
    by (auto simp: verify_token_cases split: option.split)
  have one: "verify_token secret h = Inr () \<or>
    verify_token secret h = Inl (HTTPException 401 ''Authorization header missing'') \<or>
    verify_token secret h = Inl (HTTPException 401 ''Invalid authorization scheme'') \<or>
    verify_token secret h = Inl (HTTPException 401 ''Invalid token'')"
    by (auto simp: verify_token_cases split: option.split)
  have code: "\<forall>e. verify_token secret h = Inl e \<longrightarrow> status_code e = 401"
    using one by auto
  have canonical: "secret \<noteq> [] \<and> list_all (\<lambda>c. \<not> py_isspace c) secret \<longrightarrow>
      verify_token secret (Some (''Bearer '' @ secret)) = Inr ()"
  proof
    assume ok: "secret \<noteq> [] \<and> list_all (\<lambda>c. \<not> py_isspace c) secret"
    have sp: "py_split (''Bearer '' @ secret) = [''Bearer'', secret]"
      by (rule py_split_Bearer) (use ok in blast)+
    show "verify_token secret (Some (''Bearer '' @ secret)) = Inr ()"
      unfolding verify_token_def option.case sp by (simp add: py_lower_Bearer)
  qed
  have word: "verify_token secret h = Inr () \<longrightarrow> secret \<noteq> [] \<and> list_all (\<lambda>c. \<not> py_isspace c) secret"
  proof
    assume "verify_token secret h = Inr ()"
    then obtain a scheme where "py_split a = [scheme, secret]" using pass by blast
    with py_split_words [of a] show "secret \<noteq> [] \<and> list_all (\<lambda>c. \<not> py_isspace c) secret" by simp
  qed
  have gate: "\<forall>e. verify_token (api_auth_token w) h = Inl e \<longrightarrow> router w d h req = (d, Inl e)"
    by (simp add: router_def)
  have through: "verify_token (api_auth_token w) h = Inr () \<longrightarrow> router w d h req = route w d req"
    by (simp add: router_def)
  have texts: "distinct [HTTPException 401 ''Authorization header missing'',
             HTTPException 401 ''Invalid authorization scheme'',
             HTTPException 401 ''Invalid token'']"
    by simp
  from pass missing mismatch scheme one code canonical word gate through texts show ?thesis
    by (intro conjI)
qed

text \<open>
  Claim C3 as stated fails. The pass condition: with the secret "a b" the header
  "Bearer a b" is the word Bearer followed by the secret and is rejected (three words),
  as is "Bearer " with the empty secret; and "bEARER s3cret", whose scheme word is not
  written "Bearer", passes. The rejections: a request without a header, one with the
  header "Basic s3cret" and one with the header "Bearer wrong" get three answers that
  differ in their detail text, so the client can tell the three reasons apart.
\<close>

theorem verify_token_literal_form_counterexample:
  "verify_token ''a b'' (Some ''Bearer a b'') = Inl (HTTPException 401 ''Invalid authorization scheme'') \<and>
   verify_token [] (Some ''Bearer '') = Inl (HTTPException 401 ''Invalid authorization scheme'') \<and>
   verify_token ''s3cret'' (Some ''bEARER s3cret'') = Inr () \<and>
   router offline_world busy_db None (GET_task 1) =
     (busy_db, Inl (HTTPException 401 ''Authorization header missing'')) \<and>
   router offline_world busy_db (Some ''Basic s3cret'') (GET_task 1) =
     (busy_db, Inl (HTTPException 401 ''Invalid authorization scheme'')) \<and>
   router offline_world busy_db (Some ''Bearer wrong'') (GET_task 1) =
     (busy_db, Inl (HTTPException 401 ''Invalid token'')) \<and>
   router offline_world busy_db None (GET_task 1) \<noteq>
     router offline_world busy_db (Some ''Basic s3cret'') (GET_task 1) \<and>
   router offline_world busy_db (Some ''Basic s3cret'') (GET_task 1) \<noteq>
     router offline_world busy_db (Some ''Bearer wrong'') (GET_task 1) \<and>
   router offline_world busy_db None (GET_task 1) \<noteq>
     router offline_world busy_db (Some ''Bearer wrong'') (GET_task 1)"
proof -
  have gate: "verify_token ''a b'' (Some ''Bearer a b'') = Inl (HTTPException 401 ''Invalid authorization scheme'') \<and>
   verify_token [] (Some ''Bearer '') = Inl (HTTPException 401 ''Invalid authorization scheme'') \<and>
   verify_token ''s3cret'' (Some ''bEARER s3cret'') = Inr ()"
    by code_simp
  have missing: "verify_token ''s3cret'' None = Inl (HTTPException 401 ''Authorization header missing'')"
    by (simp add: verify_token_def)
  have basic: "verify_token ''s3cret'' (Some ''Basic s3cret'') = Inl (HTTPException 401 ''Invalid authorization scheme'')"
    by code_simp
  have wrong: "verify_token ''s3cret'' (Some ''Bearer wrong'') = Inl (HTTPException 401 ''Invalid token'')"
    by code_simp
  have tok: "api_auth_token offline_world = ''s3cret''"
    by (simp add: offline_world_def)
  have r1: "router offline_world busy_db None (GET_task 1) =
     (busy_db, Inl (HTTPException 401 ''Authorization header missing''))"
    by (simp add: router_def tok missing)
  have r2: "router offline_world busy_db (Some ''Basic s3cret'') (GET_task 1) =
     (busy_db, Inl (HTTPException 401 ''Invalid authorization scheme''))"
    by (simp add: router_def tok basic)
  have r3: "router offline_world busy_db (Some ''Bearer wrong'') (GET_task 1) =
     (busy_db, Inl (HTTPException 401 ''Invalid token''))"
    by (simp add: router_def tok wrong)
  show ?thesis
    unfolding r1 r2 r3 using gate by simp
qed

theorem verify_token_pass_iff_witness:
  "''s3cret'' \<noteq> [] \<and> list_all (\<lambda>c. \<not> py_isspace c) ''s3cret'' \<and>
   verify_token ''s3cret'' (Some ''Bearer s3cret'') = Inr () \<and>
   router offline_world busy_db (Some ''Bearer s3cret'') (DELETE_task 99) =
     (busy_db, Inl (HTTPException 404 ''Task not found'')) \<and>
   verify_token ''s3cret'' None = Inl (HTTPException 401 ''Authorization header missing'') \<and>
   router offline_world busy_db None (DELETE_task 1) =
     (busy_db, Inl (HTTPException 401 ''Authorization header missing''))"
proof -
  have tok: "api_auth_token offline_world = ''s3cret''"
    by (simp add: offline_world_def)
  have wd: "''s3cret'' \<noteq> [] \<and> list_all (\<lambda>c. \<not> py_isspace c) ''s3cret''"
    by (simp add: py_isspace_def)
  have r: "route offline_world busy_db (DELETE_task 99) = (busy_db, Inl (HTTPException 404 ''Task not found''))"
    by (simp add: delete_existing_task_def delete_task_def get_task_def busy_db_def task1_def task2_def)
  have lit: "''Bearer '' @ ''s3cret'' = ''Bearer s3cret''"
    by simp
  note good = verify_token_pass_iff
    [of "''s3cret''" "Some (''Bearer '' @ ''s3cret'')" offline_world busy_db "DELETE_task 99"]
  note none = verify_token_pass_iff
    [of "''s3cret''" None offline_world busy_db "DELETE_task 1"]
  note canonical = good [THEN conjunct2, THEN conjunct2, THEN conjunct2, THEN conjunct2,
      THEN conjunct2, THEN conjunct2, THEN conjunct1]
  note through = good [THEN conjunct2, THEN conjunct2, THEN conjunct2, THEN conjunct2,
      THEN conjunct2, THEN conjunct2, THEN conjunct2, THEN conjunct2, THEN conjunct2, THEN conjunct1]
  note missing = none [THEN conjunct2, THEN conjunct1]
  note gate = none [THEN conjunct2, THEN conjunct2, THEN conjunct2, THEN conjunct2,
      THEN conjunct2, THEN conjunct2, THEN conjunct2, THEN conjunct2, THEN conjunct1]
  have p: "verify_token ''s3cret'' (Some (''Bearer '' @ ''s3cret'')) = Inr ()"
    by (rule mp [OF canonical wd])
  have p': "verify_token (api_auth_token offline_world) (Some (''Bearer '' @ ''s3cret'')) = Inr ()"
    by (simp only: tok p)
  have q: "router offline_world busy_db (Some (''Bearer '' @ ''s3cret'')) (DELETE_task 99) =
     (busy_db, Inl (HTTPException 404 ''Task not found''))"
    by (simp only: mp [OF through p'] r)
  have m: "verify_token ''s3cret'' None = Inl (HTTPException 401 ''Authorization header missing'')"
    by (simp only: missing)
  have m': "verify_token (api_auth_token offline_world) None = Inl (HTTPException 401 ''Authorization header missing'')"
    by (simp only: tok m)
  have g: "router offline_world busy_db None (DELETE_task 1) =
     (busy_db, Inl (HTTPException 401 ''Authorization header missing''))"
    by (rule mp [OF spec [OF gate] m'])
  show ?thesis
    using wd p q m g unfolding lit by (intro conjI) (elim conjE, assumption)+
qed

section \<open>Listing tasks\<close>

text \<open>
  Claim C5, as amended. For every store and every non-negative skip and limit,
  \<open>get_tasks\<close> returns the rows of the table in the order in which the engine scans
  them, without the first \<open>skip\<close> and cut after \<open>limit\<close>: at most \<open>limit\<close> rows;
  when the scan yields each row once, exactly \<open>min limit (n - skip)\<close> of the \<open>n\<close>
  stored rows, all of them stored rows, all of the rows when the window covers the
  table (no filtering), and exactly 2 for skip 0 and limit 2 on five tasks. When the scan
  yields the rows in insertion order, the result is that window of the insertion order.
\<close>

theorem get_tasks_window:
  "get_tasks sc d skip limit = take limit (drop skip (sc (tasks d))) \<and>
   length (get_tasks sc d skip limit) \<le> limit \<and>
   (mset (sc (tasks d)) = mset (tasks d) \<longrightarrow>
      length (get_tasks sc d skip limit) = min limit (length (tasks d) - skip) \<and>
      set (get_tasks sc d skip limit) \<subseteq> set (tasks d) \<and>
      (skip = 0 \<and> length (tasks d) \<le> limit \<longrightarrow> mset (get_tasks sc d skip limit) = mset (tasks d)) \<and>
      (length (tasks d) = 5 \<longrightarrow> length (get_tasks sc d 0 2) = 2)) \<and>
   (sc (tasks d) = tasks d \<longrightarrow> get_tasks sc d skip limit = take limit (drop skip (tasks d)))"
proof -
  have len: "mset (sc (tasks d)) = mset (tasks d) \<Longrightarrow> length (sc (tasks d)) = length (tasks d)"
    by (rule mset_eq_length)
  have sub: "mset (sc (tasks d)) = mset (tasks d) \<Longrightarrow>
      set (take limit (drop skip (sc (tasks d)))) \<subseteq> set (tasks d)"
  proof -
    assume "mset (sc (tasks d)) = mset (tasks d)"
    then have "set (sc (tasks d)) = set (tasks d)" by (rule mset_eq_setD)
    moreover have "set (take limit (drop skip (sc (tasks d)))) \<subseteq> set (sc (tasks d))"
      by (meson set_take_subset set_drop_subset subset_trans)
    ultimately show ?thesis by simp
  qed
  show ?thesis
    using len sub by (auto simp: get_tasks_def)
qed

text \<open>
  Claim C5 as stated fails: the query names no order. On five tasks of which the first
  has been rewritten by an update, the scan yields them as 2, 3, 4, 5, 1, and skip 0 with
  limit 2 returns tasks 2 and 3, not the first two in creation order.
\<close>

theorem get_tasks_unordered_counterexample:
  "mset (rotate 1 (tasks five_db)) = mset (tasks five_db) \<and>
   get_tasks (rotate 1) five_db 0 2 = [numbered 2, numbered 3] \<and>
   take 2 (tasks five_db) = [numbered 1, numbered 2] \<and>
   numbered 1 \<noteq> numbered 2"
  by (simp add: get_tasks_def five_db_def numbered_def)

theorem get_tasks_window_witness:
  "mset (rotate 1 (tasks five_db)) = mset (tasks five_db) \<and> length (tasks five_db) = 5 \<and>
   length (get_tasks (rotate 1) five_db 0 2) = 2 \<and>
   (\<lambda>rows. rows) (tasks five_db) = tasks five_db \<and>
   get_tasks (\<lambda>rows. rows) five_db 1 3 = [numbered 2, numbered 3, numbered 4]"
proof -
  have a: "mset (rotate 1 (tasks five_db)) = mset (tasks five_db)" by (simp add: five_db_def)
  have b: "length (tasks five_db) = 5" by (simp add: five_db_def)
  have c: "take 3 (drop 1 (tasks five_db)) = [numbered 2, numbered 3, numbered 4]"
    by (simp add: five_db_def)
  from get_tasks_window [of "rotate 1" five_db 0 2] a b
  have p: "length (get_tasks (rotate 1) five_db 0 2) = 2" by blast
  from get_tasks_window [of "\<lambda>rows. rows" five_db 1 3] c
  have q: "get_tasks (\<lambda>rows. rows) five_db 1 3 = [numbered 2, numbered 3, numbered 4]" by simp
  from a b p q show ?thesis by simp
qed

section \<open>Updating a task\<close>

lemma foldl_setattr:
  "foldl setattr t (model_dump_exclude_unset u) =
     t\<lparr> title := attr (title t) (x_title u),
        description := attr (description t) (x_description u),
        status := attr (status t) (x_status u),
        assignee_id := attr (assignee_id t) (x_assignee_id u) \<rparr>"
  by (cases "x_title u"; cases "x_description u"; cases "x_status u"; cases "x_assignee_id u")
     (simp_all add: model_dump_exclude_unset_def dump_field_def attr_def)


lemma update_task_absent: "get_task d tid = None \<Longrightarrow> update_task now d tid u = (d, Inr None)"
  by (simp add: update_task_def)

lemma update_task_unchanged:
  assumes "get_task d tid = Some t"
    and "foldl setattr t (model_dump_exclude_unset u) = t"
  shows "update_task now d tid u = (d, Inr (Some t))"
  using assms by (simp add: update_task_def commit_update_def)

lemma update_task_changed:
  assumes "get_task d tid = Some t"
    and "foldl setattr t (model_dump_exclude_unset u) = obj"
    and "obj \<noteq> t"
    and "update_parameters_ok t obj"
    and "task_constraints d obj"
  shows "update_task now d tid u =
     (d\<lparr> tasks := map (\<lambda>x. if t_id x = tid then obj\<lparr> updated_at := Some now \<rparr> else x) (tasks d) \<rparr>,
      Inr (Some (obj\<lparr> updated_at := Some now \<rparr>)))"
  using assms by (simp add: update_task_def commit_update_def get_task_id Let_def)

lemma update_task_rejected:
  assumes "get_task d tid = Some t"
    and "foldl setattr t (model_dump_exclude_unset u) = obj"
    and "obj \<noteq> t"
    and "update_parameters_ok t obj"
    and "\<not> task_constraints d obj"
  shows "update_task now d tid u = (d, Inl IntegrityError)"
  using assms by (simp add: update_task_def commit_update_def)

lemma update_task_refused:
  assumes "get_task d tid = Some t"
    and "foldl setattr t (model_dump_exclude_unset u) = obj"
    and "obj \<noteq> t"
    and "\<not> update_parameters_ok t obj"
  shows "update_task now d tid u = (d, Inl ValueError)"
  using assms by (simp add: update_task_def commit_update_def)






section \<open>The update timestamp\<close>

lemma untouched_refl: "untouched i d d"
  by (simp add: untouched_def)

lemma create_task_effect:
  "create_task now d task = (d', Inr row) \<Longrightarrow>
   t_id row = task_id_seq d \<and> updated_at row = None \<and>
   d' = d\<lparr> tasks := tasks d @ [row], task_id_seq := task_id_seq d + 1 \<rparr>"
  by (auto simp: create_task_def Let_def split: if_splits)

lemma update_task_effect:
  assumes "update_task now d j u = (d', r)"
  shows "d' = d \<or>
    (\<exists>row. r = Inr (Some row) \<and> t_id row = j \<and>
       d' = d\<lparr> tasks := map (\<lambda>x. if t_id x = j then row else x) (tasks d) \<rparr>)"
proof (cases "get_task d j")
  case None
  with assms show ?thesis by (simp add: update_task_absent)
next
  case (Some t)
  define obj where "obj = foldl setattr t (model_dump_exclude_unset u)"
  have id: "t_id obj = j"
    unfolding obj_def foldl_setattr using Some by (simp add: get_task_id)
  show ?thesis
  proof (cases "obj = t")
    case True
    with Some assms show ?thesis by (simp add: update_task_unchanged obj_def)
  next
    case False
    show ?thesis
    proof (cases "update_parameters_ok t obj")
      case par: True
      show ?thesis
      proof (cases "task_constraints d obj")
        case True
        from update_task_changed [OF Some _ False par True, of u now] assms
        have "d' = d\<lparr> tasks := map (\<lambda>x. if t_id x = j then obj\<lparr> updated_at := Some now \<rparr> else x) (tasks d) \<rparr>"
          and "r = Inr (Some (obj\<lparr> updated_at := Some now \<rparr>))"
          by (simp_all add: obj_def)
        moreover have "t_id (obj\<lparr> updated_at := Some now \<rparr>) = j" using id by simp
        ultimately show ?thesis by blast
      next
        case no: False
        from update_task_rejected [OF Some _ False par no, of u now] assms
        show ?thesis by (simp add: obj_def)
      qed
    next
      case no: False
      from update_task_refused [OF Some _ False no, of u now] assms
      show ?thesis by (simp add: obj_def)
    qed
  qed
qed

lemma delete_task_effect:
  "delete_task d j = (d', b) \<Longrightarrow>
   d' = d \<or> d' = d\<lparr> tasks := filter (\<lambda>x. t_id x \<noteq> j) (tasks d),
                      suggestions := filter (\<lambda>s. task_id s \<noteq> j) (suggestions d) \<rparr>"
  by (auto simp: delete_task_def get_task_id split: option.splits)

lemma create_ai_suggestion_effect:
  "tasks (fst (create_ai_suggestion now d sg j)) = tasks d \<and>
   task_id_seq (fst (create_ai_suggestion now d sg j)) = task_id_seq d"
  by (simp add: create_ai_suggestion_def Let_def)

lemma untouched_create:
  assumes "i < task_id_seq d"
  shows "untouched i d (fst (create_task now d task))"
proof -
  have "find (\<lambda>t. t_id t = i) (tasks d @ [row]) = find (\<lambda>t. t_id t = i) (tasks d)"
    if "t_id row = task_id_seq d" for row
    using that assms by (intro find_append_other) simp
  then show ?thesis
    by (simp add: create_task_def Let_def untouched_def get_task_def)
qed

lemma untouched_update:
  assumes "update_task now d j u = (d', r)" and "j \<noteq> i \<or> (\<forall>row. r \<noteq> Inr (Some row))"
  shows "untouched i d d'"
proof -
  from update_task_effect [OF assms(1)]
  consider "d' = d"
    | row where "r = Inr (Some row)" "t_id row = j"
        "d' = d\<lparr> tasks := map (\<lambda>x. if t_id x = j then row else x) (tasks d) \<rparr>"
    by blast
  then show ?thesis
  proof cases
    case 1
    then show ?thesis by (simp add: untouched_refl)
  next
    case 2
    from 2(1) assms(2) have ne: "j \<noteq> i" by simp
    have "find (\<lambda>t. t_id t = i) (map (\<lambda>x. if t_id x = j then row else x) (tasks d)) =
          find (\<lambda>t. t_id t = i) (tasks d)"
      using 2(2) ne by (intro find_map_replace_other) auto
    then show ?thesis unfolding 2(3) by (simp add: untouched_def get_task_def)
  qed
qed

lemma untouched_delete:
  assumes "delete_task d j = (d', b)"
  shows "untouched i d d'"
proof -
  from delete_task_effect [OF assms]
  consider "d' = d"
    | "d' = d\<lparr> tasks := filter (\<lambda>x. t_id x \<noteq> j) (tasks d),
                suggestions := filter (\<lambda>s. task_id s \<noteq> j) (suggestions d) \<rparr>"
    by blast
  then show ?thesis
  proof cases
    case 1
    then show ?thesis by (simp add: untouched_refl)
  next
    case 2
    show ?thesis
    proof (cases "j = i")
      case True
      have "find (\<lambda>t. t_id t = i) (filter (\<lambda>x. t_id x \<noteq> i) (tasks d)) = None"
        by (rule find_filter_drop) simp
      then show ?thesis unfolding 2 using True by (simp add: untouched_def get_task_def)
    next
      case False
      have "find (\<lambda>t. t_id t = i) (filter (\<lambda>x. t_id x \<noteq> j) (tasks d)) = find (\<lambda>t. t_id t = i) (tasks d)"
        using False by (intro find_filter_keep) auto
      then show ?thesis unfolding 2 by (simp add: untouched_def get_task_def)
    qed
  qed
qed

lemma untouched_route:
  assumes "\<not> is_update_of i req \<or> isl (snd (route w d req))" and "i < task_id_seq d"
  shows "untouched i d (fst (route w d req))"
proof (cases req)
  case (POST_tasks task)
  have "fst (create_new_task w d task) = d \<or>
        fst (create_new_task w d task) = fst (create_task (clock w) d task)"
    by (simp add: create_new_task_def split: option.splits prod.splits sum.splits)
  then show ?thesis
    using POST_tasks untouched_create [OF assms(2), of "clock w" task]
    by (auto simp: untouched_refl)
next
  case (GET_task j)
  then have "fst (route w d req) = d" by (simp add: read_task_def split: option.splits)
  then show ?thesis by (simp add: untouched_refl)
next
  case (PUT_task j u)
  obtain d' r where upd: "update_task (clock w) d j u = (d', r)"
    by (cases "update_task (clock w) d j u")
  have res: "fst (update_existing_task w d j u) = d \<or>
        (fst (update_existing_task w d j u) = d' \<and>
         (isl (snd (update_existing_task w d j u)) \<longrightarrow> (\<forall>row. r \<noteq> Inr (Some row))))"
    using upd by (auto simp: update_existing_task_def split: option.splits sum.splits)
  show ?thesis
  proof (cases "fst (update_existing_task w d j u) = d")
    case True
    with PUT_task show ?thesis by (simp add: untouched_refl)
  next
    case False
    with res have fst: "fst (update_existing_task w d j u) = d'"
      and err: "isl (snd (update_existing_task w d j u)) \<longrightarrow> (\<forall>row. r \<noteq> Inr (Some row))"
      by blast+
    from assms(1) PUT_task err have "j \<noteq> i \<or> (\<forall>row. r \<noteq> Inr (Some row))" by auto
    with upd have "untouched i d d'" by (rule untouched_update)
    with fst PUT_task show ?thesis by simp
  qed
next
  case (DELETE_task j)
  obtain d' b where del: "delete_task d j = (d', b)" by (cases "delete_task d j")
  then have "fst (delete_existing_task d j) = d'" by (simp add: delete_existing_task_def)
  with DELETE_task untouched_delete [OF del, of i] show ?thesis by simp
next
  case (POST_suggestions j)
  have "tasks (fst (create_task_suggestion w d j)) = tasks d \<and>
        task_id_seq (fst (create_task_suggestion w d j)) = task_id_seq d"
    using create_ai_suggestion_effect
    by (simp add: create_task_suggestion_def split: option.splits prod.splits sum.splits)
       (metis fst_conv)
  with POST_suggestions show ?thesis by (simp add: untouched_def get_task_def)
next
  case (GET_tasks skip limit)
  then have "fst (route w d req) = d" by (simp add: read_tasks_def)
  then show ?thesis by (simp add: untouched_refl)
qed

lemma untouched_router:
  assumes "\<not> is_update_of i req \<or> isl (snd (router w d h req))" and "i < task_id_seq d"
  shows "untouched i d (fst (router w d h req))"
proof (cases "verify_token (api_auth_token w) h")
  case (Inl e)
  then show ?thesis by (simp add: router_def untouched_refl)
next
  case (Inr u)
  then have same: "router w d h req = route w d req" by (simp add: router_def)
  with assms show ?thesis by (simp add: untouched_route)
qed

lemma serve_keeps_null:
  "no_successful_update i d reqs \<Longrightarrow> i < task_id_seq d \<Longrightarrow>
   (case get_task d i of None \<Rightarrow> True | Some t \<Rightarrow> updated_at t = None) \<Longrightarrow>
   (case get_task (serve d reqs) i of None \<Rightarrow> True | Some t \<Rightarrow> updated_at t = None)"
proof (induction reqs arbitrary: d)
  case Nil
  then show ?case by simp
next
  case (Cons x reqs)
  obtain w h req where x: "x = (w, h, req)" by (cases x)
  let ?d' = "fst (router w d h req)"
  from Cons.prems(1) x have step: "\<not> is_update_of i req \<or> isl (snd (router w d h req))"
    and rest: "no_successful_update i ?d' reqs" by simp_all
  have u: "untouched i d ?d'" using step Cons.prems(2) by (rule untouched_router)
  then have seq: "i < task_id_seq ?d'" using Cons.prems(2) by (simp add: untouched_def)
  have same: "case get_task ?d' i of None \<Rightarrow> True | Some t \<Rightarrow> updated_at t = None"
    using u Cons.prems(3) by (auto simp: untouched_def split: option.splits)
  from Cons.IH [OF rest seq same] x show ?case by simp
qed

text \<open>
  Claim C10. A task just created has \<open>updated_at\<close> null, in the stored row and in the
  payload of the response (where the field is optional). In every run of requests that
  follows in which no update of that task succeeds, the task, as long as it is stored,
  still has \<open>updated_at\<close> null.
\<close>

theorem updated_at_null_until_update:
  assumes "wf_db d" and "create_task now d task = (d1, Inr row)"
    and "no_successful_update (t_id row) d1 reqs"
  shows "updated_at row = None \<and>
         get_task d1 (t_id row) = Some row \<and>
         updated_at (columns (task_schema d1 row)) = None \<and>
         (case get_task (serve d1 reqs) (t_id row) of None \<Rightarrow> True | Some t \<Rightarrow> updated_at t = None)"
proof -
  from create_task_effect [OF assms(2)]
  have id: "t_id row = task_id_seq d" and null: "updated_at row = None"
    and d1: "d1 = d\<lparr> tasks := tasks d @ [row], task_id_seq := task_id_seq d + 1 \<rparr>" by blast+
  have fresh: "find (\<lambda>t. t_id t = task_id_seq d) (tasks d) = None"
    using assms(1) by (intro find_None_below wf_db_ids_below)
  have stored: "get_task d1 (t_id row) = Some row"
    unfolding d1 using fresh id by (simp add: get_task_def find_append_fresh)
  have below: "t_id row < task_id_seq d1"
    unfolding d1 using id by simp
  have start: "case get_task d1 (t_id row) of None \<Rightarrow> True | Some t \<Rightarrow> updated_at t = None"
    using stored null by simp
  from serve_keeps_null [OF assms(3) below start] null stored
  show ?thesis by (simp add: task_schema_def)
qed

theorem updated_at_null_until_update_witness:
  "wf_db empty_db \<and>
   (\<exists>d1 row. create_task 7 empty_db report_request = (d1, Inr row) \<and> t_id row = 1 \<and>
      no_successful_update 1 d1 quiet_run \<and>
      updated_at row = None \<and> get_task d1 1 = Some row \<and>
      get_task (serve d1 quiet_run) 1 = Some row)"
proof -
  define row where "row = \<lparr> t_id = 1, title = Some ''Write report'', description = None,
      status = Some ''pending'', created_at = 7, updated_at = None, assignee_id = None \<rparr>"
  define d1 where "d1 = \<lparr> users = [default_user], tasks = [row], suggestions = [],
      task_id_seq = 2, suggestion_id_seq = 1 \<rparr>"
  have c: "create_task 7 empty_db report_request = (d1, Inr row)"
    by (simp add: create_task_def report_request_def empty_db_def task_constraints_def fk_users_def
        insert_parameters_ok_def nul_free_def attr_def py_or_def Let_def d1_def row_def)
  have tok: "api_auth_token offline_world = ''s3cret''" by (simp add: offline_world_def)
  have r1: "router offline_world d1 None (PUT_task 1 status_done) =
      (d1, Inl (HTTPException 401 ''Authorization header missing''))"
    by (simp add: router_def verify_token_def)
  have g: "get_task d1 1 = Some row" by (simp add: get_task_def d1_def row_def)
  have r2: "tasks (fst (router offline_world d1 (Some ''Bearer s3cret'') (POST_suggestions 1))) = tasks d1"
    using untouched_refl create_ai_suggestion_effect
    by (simp add: router_def tok bearer_s3cret_passes create_task_suggestion_def g
        split: option.splits prod.splits sum.splits) (metis fst_conv)
  have quiet: "no_successful_update 1 d1 quiet_run"
    by (simp add: quiet_run_def r1)
  have after: "get_task (serve d1 quiet_run) 1 = Some row"
  proof -
    have "serve d1 quiet_run = fst (router offline_world d1 (Some ''Bearer s3cret'') (POST_suggestions 1))"
      by (simp add: quiet_run_def r1)
    then show ?thesis using r2 g by (simp add: get_task_def)
  qed
  have id: "t_id row = 1" by (simp add: row_def)
  from updated_at_null_until_update [OF wf_empty_db c, of quiet_run] quiet id
  have "updated_at row = None \<and> get_task d1 1 = Some row" by simp
  with wf_empty_db c quiet after id show ?thesis by blast
qed

section \<open>Truth values of request fields\<close>

lemma create_task_status_nonempty:
  assumes "s \<noteq> []" and "c_status task = Given (Some s)" and "c_assignee_id task = Unset"
    and "CHR 0x00 \<notin> set s" and "CHR 0x00 \<notin> set (c_title task)"
    and "nul_free (attr None (c_description task))"
  shows "\<exists>d' row. create_task now d task = (d', Inr row) \<and> status row = Some s"
  using assms
  by (simp add: create_task_def insert_parameters_ok_def nul_free_def task_constraints_def
      fk_users_def attr_def py_or_def Let_def)

text \<open>
  Claim C8, at the input where the code departs from it. A create request whose status
  is the empty string stores "pending", not the string given: \<open>task.status or "pending"\<close>
  takes the empty string for a missing value. The same string given in an update of
  task 1 is stored as it is.
\<close>

theorem create_task_blank_status:
  "create_task 7 empty_db blank_status_request =
     (empty_db\<lparr> tasks := [\<lparr> t_id = 1, title = Some ''Write report'', description = None,
                             status = Some ''pending'', created_at = 7, updated_at = None,
                             assignee_id = None \<rparr>], task_id_seq := 2 \<rparr>,
      Inr \<lparr> t_id = 1, title = Some ''Write report'', description = None,
            status = Some ''pending'', created_at = 7, updated_at = None, assignee_id = None \<rparr>) \<and>
   update_task 20 busy_db 1 blank_status_update =
     (busy_db\<lparr> tasks := [task1\<lparr> status := Some [], updated_at := Some 20 \<rparr>, task2] \<rparr>,
      Inr (Some (task1\<lparr> status := Some [], updated_at := Some 20 \<rparr>)))"
proof
  show "create_task 7 empty_db blank_status_request =
     (empty_db\<lparr> tasks := [\<lparr> t_id = 1, title = Some ''Write report'', description = None,
                             status = Some ''pending'', created_at = 7, updated_at = None,
                             assignee_id = None \<rparr>], task_id_seq := 2 \<rparr>,
      Inr \<lparr> t_id = 1, title = Some ''Write report'', description = None,
            status = Some ''pending'', created_at = 7, updated_at = None, assignee_id = None \<rparr>)"
    by (simp add: create_task_def blank_status_request_def empty_db_def task_constraints_def
        insert_parameters_ok_def nul_free_def fk_users_def attr_def py_or_def Let_def)
next
  have found: "get_task busy_db 1 = Some task1"
    by (simp add: get_task_def busy_db_def task1_def task2_def)
  have obj: "foldl setattr task1 (model_dump_exclude_unset blank_status_update) = task1\<lparr> status := Some [] \<rparr>"
    by (simp add: foldl_setattr blank_status_update_def attr_def)
  have ne: "task1\<lparr> status := Some [] \<rparr> \<noteq> task1"
    by (simp add: task1_def)
  have par: "update_parameters_ok task1 (task1\<lparr> status := Some [] \<rparr>)"
    by (simp add: update_parameters_ok_def nul_free_def)
  have ok: "task_constraints busy_db (task1\<lparr> status := Some [] \<rparr>)"
    by (simp add: task_constraints_def fk_users_def get_user_def busy_db_def task1_def default_user_def)
  have "update_task 20 busy_db 1 blank_status_update =
     (busy_db\<lparr> tasks := map (\<lambda>x. if t_id x = 1 then task1\<lparr> status := Some [] \<rparr>\<lparr> updated_at := Some 20 \<rparr> else x)
                              (tasks busy_db) \<rparr>,
      Inr (Some (task1\<lparr> status := Some [] \<rparr>\<lparr> updated_at := Some 20 \<rparr>)))"
    using found obj ne par ok by (rule update_task_changed)
  moreover have "map (\<lambda>x. if t_id x = 1 then task1\<lparr> status := Some [] \<rparr>\<lparr> updated_at := Some 20 \<rparr> else x)
        (tasks busy_db) = [task1\<lparr> status := Some [], updated_at := Some 20 \<rparr>, task2]"
    by (simp add: busy_db_def task1_def task2_def)
  ultimately show "update_task 20 busy_db 1 blank_status_update =
     (busy_db\<lparr> tasks := [task1\<lparr> status := Some [], updated_at := Some 20 \<rparr>, task2] \<rparr>,
      Inr (Some (task1\<lparr> status := Some [], updated_at := Some 20 \<rparr>)))"
    by simp
qed

text \<open>
  Claim C4, at the input where the code departs from it. No user has id 0. The create
  route guards its lookup with the truth value of the id, so for the assignee id 0 it
  looks no user up and calls \<open>create_task\<close>, whose insert the foreign key refuses: the
  request ends in an IntegrityError (a 500), not in the 404 that names the missing user,
  and no task is stored (the refused insert has drawn an id from the sequence). For the
  id 9999 the same route answers with that 404, and the update route, which tests the id
  against \<open>None\<close>, answers with it for the id 0 as well; both leave the store as it was.
\<close>

theorem create_new_task_assignee_zero:
  "get_user empty_db 0 = None \<and>
   create_new_task offline_world empty_db assignee_zero_request =
     (empty_db\<lparr> task_id_seq := 2 \<rparr>, Inl IntegrityError) \<and>
   status_code IntegrityError = 500 \<and>
   create_new_task offline_world empty_db assignee_9999_request =
     (empty_db, Inl (HTTPException 404 ''Assignee user with id 9999 not found'')) \<and>
   update_existing_task offline_world busy_db 1 assign_zero =
     (busy_db, Inl (HTTPException 404 ''Assignee user with id 0 not found''))"
proof (intro conjI)
  show u0: "get_user empty_db 0 = None"
    by (simp add: get_user_def empty_db_def default_user_def)
  have u9: "get_user empty_db 9999 = None"
    by (simp add: get_user_def empty_db_def default_user_def)
  have b0: "get_user busy_db 0 = None"
    by (simp add: get_user_def busy_db_def default_user_def)
  have seq: "task_id_seq empty_db = 1"
    by (simp add: empty_db_def)
  have c: "create_task (clock offline_world) empty_db assignee_zero_request =
      (empty_db\<lparr> task_id_seq := 2 \<rparr>, Inl IntegrityError)"
    by (simp add: create_task_def task_constraints_def fk_users_def u0 attr_def seq
        insert_parameters_ok_def nul_free_def py_or_def assignee_zero_request_def Let_def)
  show "create_new_task offline_world empty_db assignee_zero_request =
     (empty_db\<lparr> task_id_seq := 2 \<rparr>, Inl IntegrityError)"
  proof -
    have "attr None (c_assignee_id assignee_zero_request) = Some 0"
      by (simp add: assignee_zero_request_def attr_def)
    then show ?thesis by (simp add: create_new_task_def c)
  qed
  show "status_code IntegrityError = 500"
    by simp
  show "create_new_task offline_world empty_db assignee_9999_request =
     (empty_db, Inl (HTTPException 404 ''Assignee user with id 9999 not found''))"
    by (simp add: create_new_task_def assignee_9999_request_def attr_def u9 assignee_not_found_def
        str_int_9999)
  show "update_existing_task offline_world busy_db 1 assign_zero =
     (busy_db, Inl (HTTPException 404 ''Assignee user with id 0 not found''))"
    by (simp add: update_existing_task_def assign_zero_def attr_def b0 assignee_not_found_def str_int_0)
qed

section \<open>Every request keeps the store well-formed\<close>

text \<open>
  The store after start-up is well-formed, and every request leaves a well-formed store
  well-formed, whether it is answered or ends in an error: the hypothesis \<open>wf_db\<close> of
  the theorems above holds in every state the service reaches.
\<close>

lemma task_constraints_users:
  "users d' = users d \<Longrightarrow> task_constraints d' t = task_constraints d t"
  by (cases "assignee_id t") (simp_all add: task_constraints_def fk_users_def get_user_def)

lemma wf_db_parts:
  "wf_db d \<longleftrightarrow>
     distinct (map t_id (tasks d)) \<and>
     (\<forall>t \<in> set (tasks d). t_id t < task_id_seq d \<and> task_constraints d t) \<and>
     distinct (map s_id (suggestions d)) \<and>
     (\<forall>s \<in> set (suggestions d). s_id s < suggestion_id_seq d \<and> get_task d (task_id s) \<noteq> None) \<and>
     distinct (map u_id (users d))"
  by (simp add: wf_db_def list_all_iff)

lemma wf_db_task_id_drawn:
  assumes wf: "wf_db d"
  shows "wf_db (d\<lparr> task_id_seq := task_id_seq d + 1 \<rparr>)"
proof -
  let ?d' = "d\<lparr> task_id_seq := task_id_seq d + 1 \<rparr>"
  have us: "users ?d' = users d" by simp
  from wf have p1: "distinct (map t_id (tasks d))"
    and p2: "\<forall>t \<in> set (tasks d). t_id t < task_id_seq d \<and> task_constraints d t"
    and p3: "distinct (map s_id (suggestions d))"
    and p4: "\<forall>s \<in> set (suggestions d). s_id s < suggestion_id_seq d \<and> get_task d (task_id s) \<noteq> None"
    and p5: "distinct (map u_id (users d))"
    unfolding wf_db_parts by blast+
  have q2: "\<forall>t \<in> set (tasks ?d'). t_id t < task_id_seq ?d' \<and> task_constraints ?d' t"
    unfolding task_constraints_users [OF us] using p2 by auto
  have q4: "\<forall>s \<in> set (suggestions ?d'). s_id s < suggestion_id_seq ?d' \<and> get_task ?d' (task_id s) \<noteq> None"
    using p4 by (simp add: get_task_def)
  show ?thesis
    unfolding wf_db_parts using p1 q2 p3 q4 p5 by simp
qed

lemma wf_db_suggestion_id_drawn:
  assumes wf: "wf_db d"
  shows "wf_db (d\<lparr> suggestion_id_seq := suggestion_id_seq d + 1 \<rparr>)"
proof -
  let ?d' = "d\<lparr> suggestion_id_seq := suggestion_id_seq d + 1 \<rparr>"
  have us: "users ?d' = users d" by simp
  from wf have p1: "distinct (map t_id (tasks d))"
    and p2: "\<forall>t \<in> set (tasks d). t_id t < task_id_seq d \<and> task_constraints d t"
    and p3: "distinct (map s_id (suggestions d))"
    and p4: "\<forall>s \<in> set (suggestions d). s_id s < suggestion_id_seq d \<and> get_task d (task_id s) \<noteq> None"
    and p5: "distinct (map u_id (users d))"
    unfolding wf_db_parts by blast+
  have q2: "\<forall>t \<in> set (tasks ?d'). t_id t < task_id_seq ?d' \<and> task_constraints ?d' t"
    unfolding task_constraints_users [OF us] using p2 by auto
  have q4: "\<forall>s \<in> set (suggestions ?d'). s_id s < suggestion_id_seq ?d' \<and> get_task ?d' (task_id s) \<noteq> None"
    using p4 by (auto simp: get_task_def)
  show ?thesis
    unfolding wf_db_parts using p1 q2 p3 q4 p5 by simp
qed

lemma create_task_refused:
  "create_task now d task = (d', Inl e) \<Longrightarrow> d' = d \<or> d' = d\<lparr> task_id_seq := task_id_seq d + 1 \<rparr>"
  by (auto simp: create_task_def Let_def split: if_splits)

lemma wf_db_create_task:
  assumes wf: "wf_db d" and cr: "create_task now d task = (d', r)"
  shows "wf_db d'"
proof (cases r)
  case (Inl e)
  with cr have "d' = d \<or> d' = d\<lparr> task_id_seq := task_id_seq d + 1 \<rparr>"
    by (simp add: create_task_refused)
  with wf wf_db_task_id_drawn [OF wf] show ?thesis by auto
next
  case (Inr row)
  with cr have cr': "create_task now d task = (d', Inr row)" by simp
  from create_task_effect [OF cr']
  have id: "t_id row = task_id_seq d"
    and d': "d' = d\<lparr> tasks := tasks d @ [row], task_id_seq := task_id_seq d + 1 \<rparr>" by blast+
  have us: "users d' = users d" and sg: "suggestions d' = suggestions d"
    and sq: "suggestion_id_seq d' = suggestion_id_seq d" and ts: "tasks d' = tasks d @ [row]"
    and tq: "task_id_seq d' = task_id_seq d + 1"
    unfolding d' by simp_all
  have ok: "task_constraints d row"
    using cr' by (auto simp: create_task_def Let_def split: if_splits)
  from wf have p1: "distinct (map t_id (tasks d))"
    and p2: "\<forall>t \<in> set (tasks d). t_id t < task_id_seq d \<and> task_constraints d t"
    and p3: "distinct (map s_id (suggestions d))"
    and p4: "\<forall>s \<in> set (suggestions d). s_id s < suggestion_id_seq d \<and> get_task d (task_id s) \<noteq> None"
    and p5: "distinct (map u_id (users d))"
    unfolding wf_db_parts by blast+
  have q1: "distinct (map t_id (tasks d'))"
    unfolding ts using p1 p2 id by auto
  have q2: "\<forall>t \<in> set (tasks d'). t_id t < task_id_seq d' \<and> task_constraints d' t"
    unfolding ts tq task_constraints_users [OF us] using p2 id ok by auto
  have q4: "\<forall>s \<in> set (suggestions d'). s_id s < suggestion_id_seq d' \<and> get_task d' (task_id s) \<noteq> None"
  proof
    fix s assume s: "s \<in> set (suggestions d')"
    with p4 sg obtain y where "s_id s < suggestion_id_seq d" "get_task d (task_id s) = Some y"
      by auto
    then show "s_id s < suggestion_id_seq d' \<and> get_task d' (task_id s) \<noteq> None"
      unfolding sq get_task_def ts by (simp add: find_append_found)
  qed
  show ?thesis
    unfolding wf_db_parts using q1 q2 q4 p3 p5 by (simp add: us sg)
qed

lemma wf_db_update_task:
  assumes wf: "wf_db d" and up: "update_task now d j u = (d', r)"
  shows "wf_db d'"
proof (cases "get_task d j")
  case None
  with up wf show ?thesis by (simp add: update_task_absent)
next
  case (Some t)
  define obj where "obj = foldl setattr t (model_dump_exclude_unset u)"
  have idt: "t_id t = j" using Some by (rule get_task_id)
  have mem: "t \<in> set (tasks d)" using Some by (auto simp: get_task_def dest: find_Some_holds)
  have id: "t_id obj = j"
    unfolding obj_def foldl_setattr using idt by simp
  show ?thesis
  proof (cases "obj = t")
    case True
    with Some up wf show ?thesis by (simp add: update_task_unchanged obj_def)
  next
    case False
    show ?thesis
    proof (cases "update_parameters_ok t obj")
      case no: False
      from update_task_refused [OF Some _ False no, of u now] up wf
      show ?thesis by (simp add: obj_def)
    next
      case par: True
      show ?thesis
      proof (cases "task_constraints d obj")
        case no: False
        from update_task_rejected [OF Some _ False par no, of u now] up wf
        show ?thesis by (simp add: obj_def)
      next
        case True
        define row where "row = obj\<lparr> updated_at := Some now \<rparr>"
        from update_task_changed [OF Some _ False par True, of u now] up
        have d': "d' = d\<lparr> tasks := map (\<lambda>x. if t_id x = j then row else x) (tasks d) \<rparr>"
          by (simp add: obj_def row_def)
        have rid: "t_id row = j" unfolding row_def using id by simp
        have rok: "task_constraints d row"
          using True unfolding row_def by (simp add: task_constraints_def)
        have us: "users d' = users d" and sg: "suggestions d' = suggestions d"
          and sq: "suggestion_id_seq d' = suggestion_id_seq d"
          and ts: "tasks d' = map (\<lambda>x. if t_id x = j then row else x) (tasks d)"
          and tq: "task_id_seq d' = task_id_seq d"
          unfolding d' by simp_all
        from wf have p1: "distinct (map t_id (tasks d))"
          and p2: "\<forall>t \<in> set (tasks d). t_id t < task_id_seq d \<and> task_constraints d t"
          and p3: "distinct (map s_id (suggestions d))"
          and p4: "\<forall>s \<in> set (suggestions d). s_id s < suggestion_id_seq d \<and> get_task d (task_id s) \<noteq> None"
          and p5: "distinct (map u_id (users d))"
          unfolding wf_db_parts by blast+
        have jlt: "j < task_id_seq d" using p2 mem idt by auto
        have q1: "distinct (map t_id (tasks d'))"
          unfolding ts map_t_id_replace [OF rid] by (rule p1)
        have q2: "\<forall>t \<in> set (tasks d'). t_id t < task_id_seq d' \<and> task_constraints d' t"
          unfolding ts tq task_constraints_users [OF us] using p2 rid rok jlt by auto
        have q4: "\<forall>s \<in> set (suggestions d'). s_id s < suggestion_id_seq d' \<and> get_task d' (task_id s) \<noteq> None"
          unfolding sg sq get_task_def ts find_map_replace_found [OF rid] using p4 by (simp add: get_task_def)
        show ?thesis
          unfolding wf_db_parts using q1 q2 q4 p3 p5 by (simp add: us sg)
      qed
    qed
  qed
qed

lemma wf_db_delete_task:
  assumes wf: "wf_db d" and del: "delete_task d j = (d', b)"
  shows "wf_db d'"
proof -
  from delete_task_effect [OF del]
  consider "d' = d"
    | "d' = d\<lparr> tasks := filter (\<lambda>x. t_id x \<noteq> j) (tasks d),
                suggestions := filter (\<lambda>s. task_id s \<noteq> j) (suggestions d) \<rparr>"
    by blast
  then show ?thesis
  proof cases
    case 1
    with wf show ?thesis by simp
  next
    case 2
    have us: "users d' = users d"
      and sg: "suggestions d' = filter (\<lambda>s. task_id s \<noteq> j) (suggestions d)"
      and sq: "suggestion_id_seq d' = suggestion_id_seq d"
      and ts: "tasks d' = filter (\<lambda>x. t_id x \<noteq> j) (tasks d)"
      and tq: "task_id_seq d' = task_id_seq d"
      unfolding 2 by simp_all
    from wf have p1: "distinct (map t_id (tasks d))"
      and p2: "\<forall>t \<in> set (tasks d). t_id t < task_id_seq d \<and> task_constraints d t"
      and p3: "distinct (map s_id (suggestions d))"
      and p4: "\<forall>s \<in> set (suggestions d). s_id s < suggestion_id_seq d \<and> get_task d (task_id s) \<noteq> None"
      and p5: "distinct (map u_id (users d))"
      unfolding wf_db_parts by blast+
    have q1: "distinct (map t_id (tasks d'))"
      unfolding ts using p1 by (rule distinct_map_filter)
    have q2: "\<forall>t \<in> set (tasks d'). t_id t < task_id_seq d' \<and> task_constraints d' t"
      unfolding ts tq task_constraints_users [OF us] using p2 by simp
    have q3: "distinct (map s_id (suggestions d'))"
      unfolding sg using p3 by (rule distinct_map_filter)
    have q4: "\<forall>s \<in> set (suggestions d'). s_id s < suggestion_id_seq d' \<and> get_task d' (task_id s) \<noteq> None"
    proof
      fix s assume "s \<in> set (suggestions d')"
      then have s: "s \<in> set (suggestions d)" and ne: "task_id s \<noteq> j"
        unfolding sg by simp_all
      have "find (\<lambda>t. t_id t = task_id s) (filter (\<lambda>x. t_id x \<noteq> j) (tasks d)) =
            find (\<lambda>t. t_id t = task_id s) (tasks d)"
        using ne by (intro find_filter_keep) auto
      then have "get_task d' (task_id s) = get_task d (task_id s)"
        unfolding get_task_def ts .
      with p4 s show "s_id s < suggestion_id_seq d' \<and> get_task d' (task_id s) \<noteq> None"
        unfolding sq by simp
    qed
    show ?thesis
      unfolding wf_db_parts using q1 q2 q3 q4 p5 by (simp add: us)
  qed
qed

lemma create_ai_suggestion_refused:
  "create_ai_suggestion now d sg j = (d', Inl e) \<Longrightarrow>
   d' = d \<or> d' = d\<lparr> suggestion_id_seq := suggestion_id_seq d + 1 \<rparr>"
  by (auto simp: create_ai_suggestion_def Let_def split: if_splits)

lemma wf_db_create_ai_suggestion:
  assumes wf: "wf_db d" and cr: "create_ai_suggestion now d sg j = (d', r)"
  shows "wf_db d'"
proof (cases r)
  case (Inl e)
  with cr have "d' = d \<or> d' = d\<lparr> suggestion_id_seq := suggestion_id_seq d + 1 \<rparr>"
    by (simp add: create_ai_suggestion_refused)
  with wf wf_db_suggestion_id_drawn [OF wf] show ?thesis by auto
next
  case (Inr s)
  with cr have cr': "create_ai_suggestion now d sg j = (d', Inr s)" by simp
  have found: "get_task d j \<noteq> None"
    and d': "d' = d\<lparr> suggestions := suggestions d @ [s], suggestion_id_seq := suggestion_id_seq d + 1 \<rparr>"
    and sid: "s_id s = suggestion_id_seq d" and stid: "task_id s = j"
    using cr' by (auto simp: create_ai_suggestion_def Let_def split: if_splits)
  have us: "users d' = users d" and sg: "suggestions d' = suggestions d @ [s]"
    and sq: "suggestion_id_seq d' = suggestion_id_seq d + 1" and ts: "tasks d' = tasks d"
    and tq: "task_id_seq d' = task_id_seq d"
    unfolding d' by simp_all
  from wf have p1: "distinct (map t_id (tasks d))"
    and p2: "\<forall>t \<in> set (tasks d). t_id t < task_id_seq d \<and> task_constraints d t"
    and p3: "distinct (map s_id (suggestions d))"
    and p4: "\<forall>s \<in> set (suggestions d). s_id s < suggestion_id_seq d \<and> get_task d (task_id s) \<noteq> None"
    and p5: "distinct (map u_id (users d))"
    unfolding wf_db_parts by blast+
  have gt: "\<And>k. get_task d' k = get_task d k"
    unfolding get_task_def ts ..
  have q2: "\<forall>t \<in> set (tasks d'). t_id t < task_id_seq d' \<and> task_constraints d' t"
    unfolding ts tq task_constraints_users [OF us] by (rule p2)
  have q3: "distinct (map s_id (suggestions d'))"
    unfolding sg using p3 p4 sid by auto
  have q4: "\<forall>s \<in> set (suggestions d'). s_id s < suggestion_id_seq d' \<and> get_task d' (task_id s) \<noteq> None"
    unfolding sg sq gt using p4 sid stid found by auto
  show ?thesis
    unfolding wf_db_parts using p1 q2 q3 q4 p5 by (simp add: us ts)
qed

lemma wf_db_route:
  assumes wf: "wf_db d"
  shows "wf_db (fst (route w d req))"
proof (cases req)
  case (POST_tasks task)
  obtain d' r where cr: "create_task (clock w) d task = (d', r)"
    by (cases "create_task (clock w) d task")
  then have "fst (create_new_task w d task) = d \<or> fst (create_new_task w d task) = d'"
    by (simp add: create_new_task_def split: option.splits sum.splits)
  with POST_tasks wf wf_db_create_task [OF wf cr] show ?thesis by auto
next
  case (GET_task j)
  then have "fst (route w d req) = d" by (simp add: read_task_def split: option.splits)
  with wf show ?thesis by simp
next
  case (PUT_task j u)
  obtain d' r where up: "update_task (clock w) d j u = (d', r)"
    by (cases "update_task (clock w) d j u")
  then have "fst (update_existing_task w d j u) = d \<or> fst (update_existing_task w d j u) = d'"
    by (simp add: update_existing_task_def split: option.splits sum.splits)
  with PUT_task wf wf_db_update_task [OF wf up] show ?thesis by auto
next
  case (DELETE_task j)
  obtain d' b where del: "delete_task d j = (d', b)" by (cases "delete_task d j")
  then have "fst (delete_existing_task d j) = d'" by (simp add: delete_existing_task_def)
  with DELETE_task wf_db_delete_task [OF wf del] show ?thesis by simp
next
  case (POST_suggestions j)
  show ?thesis
  proof (cases "get_task d j")
    case None
    with POST_suggestions wf show ?thesis by (simp add: create_task_suggestion_def)
  next
    case (Some t)
    obtain sgt where gen: "generate_ai_suggestion (openai_api_key_file w) (provider w) (title t) (description t) = Some sgt"
      using generate_ai_suggestion_total by blast
    obtain d' r where cr: "create_ai_suggestion (clock w) d \<lparr> n_suggestion_text = sgt \<rparr> j = (d', r)"
      by (cases "create_ai_suggestion (clock w) d \<lparr> n_suggestion_text = sgt \<rparr> j")
    then have "fst (create_task_suggestion w d j) = d'"
      using Some gen by (simp add: create_task_suggestion_def split: sum.splits)
    with POST_suggestions wf_db_create_ai_suggestion [OF wf cr] show ?thesis by simp
  qed
next
  case (GET_tasks skip limit)
  then have "fst (route w d req) = d" by (simp add: read_tasks_def)
  with wf show ?thesis by simp
qed

lemma wf_db_router: "wf_db d \<Longrightarrow> wf_db (fst (router w d h req))"
  by (simp add: router_def wf_db_route split: sum.splits)

lemma wf_db_serve: "wf_db d \<Longrightarrow> wf_db (serve d reqs)"
proof (induction reqs arbitrary: d)
  case Nil
  then show ?case by simp
next
  case (Cons x reqs)
  obtain w h req where "x = (w, h, req)" by (cases x)
  with Cons show ?case by (simp add: wf_db_router)
qed

end
